theory Spec2Isabelle
  imports Complex_Main "HOL-Library.AList"
begin

section \<open>Python values: dictionaries, exceptions, outcomes\<close>

text \<open>
  The development embeds \<^verbatim>\<open>src/envs/vectorized.py\<close>: the worker loop \<^verbatim>\<open>worker\<close>
  and the class \<^verbatim>\<open>VectorizedEnv\<close> (the Coordinator of the specification).

  A Python \<^verbatim>\<open>dict\<close> is an association list in insertion order with distinct keys:
  \<^verbatim>\<open>d[k] = v\<close> is \<open>AList.update k v d\<close> (it overwrites in place or appends),
  \<^verbatim>\<open>k in d\<close> is \<open>map_of d k \<noteq> None\<close>, \<^verbatim>\<open>len(d)\<close> is \<open>length d\<close>,
  \<^verbatim>\<open>d.values()\<close> is \<open>map snd d\<close> and \<^verbatim>\<open>d.keys()\<close> is \<open>map fst d\<close>.
  Agent identities are natural numbers, an observation vector is an opaque integer and a
  reward is a rational number: the floating-point arithmetic of the source is idealised to
  exact arithmetic.
\<close>

type_synonym agent_id = nat
type_synonym ('k, 'v) dict = "('k \<times> 'v) list"
type_synonym obs_dict = "(agent_id, int) dict"
type_synonym reward_dict = "(agent_id, rat) dict"
type_synonym flag_dict = "(agent_id, bool) dict"
type_synonym step_result = "obs_dict \<times> reward_dict \<times> flag_dict \<times> flag_dict"

definition py_values :: "('k, 'v) dict \<Rightarrow> 'v list" where
  "py_values d = map snd d"

definition py_keys :: "('k, 'v) dict \<Rightarrow> 'k list" where
  "py_keys d = map fst d"

definition py_any :: "bool list \<Rightarrow> bool" where
  "py_any bs = list_ex (\<lambda>b. b) bs"

text \<open>
  Every exception the modelled code can raise or catch. All of them are subclasses of
  \<^verbatim>\<open>Exception\<close>; \<open>BrokenPipeError\<close> is a subclass of \<open>OSError\<close>, not the other way round,
  and \<open>EOFError\<close> is unrelated to both. \<open>SimError n\<close> stands for any other exception a
  simulation object or the environment factory raises.
\<close>

datatype exn =
    UnboundLocalError | KeyError | AttributeError | IndexError | TypeError
  | RuntimeError | EOFError | BrokenPipeError | OSError | SimError nat

text \<open>
  A statement returns, raises, or blocks for ever (a \<^verbatim>\<open>recv\<close> on a channel on which
  nothing will ever arrive).
\<close>

datatype 'a outcome = Return 'a | Raise exn | Blocked

text \<open>
  Stateful code threads the state explicitly: a program maps a state to an outcome and the
  state at that point. Mutations made before a \<^verbatim>\<open>raise\<close> persist, as they do in Python.
\<close>

type_synonym ('s, 'a) prog = "'s \<Rightarrow> 'a outcome \<times> 's"

definition ret :: "'a \<Rightarrow> ('s, 'a) prog" where
  "ret x s = (Return x, s)"

definition raise :: "exn \<Rightarrow> ('s, 'a) prog" where
  "raise e s = (Raise e, s)"

definition bnd :: "('s, 'a) prog \<Rightarrow> ('a \<Rightarrow> ('s, 'b) prog) \<Rightarrow> ('s, 'b) prog" where
  "bnd m f s =
     (case m s of
        (Return x, s') \<Rightarrow> f x s'
      | (Raise e, s') \<Rightarrow> (Raise e, s')
      | (Blocked, s') \<Rightarrow> (Blocked, s'))"

definition modify :: "('s \<Rightarrow> 's) \<Rightarrow> ('s, unit) prog" where
  "modify f s = (Return (), f s)"

text \<open>A \<^verbatim>\<open>for\<close> loop without \<^verbatim>\<open>break\<close>: the body runs on each element in turn.\<close>

fun for_each :: "'a list \<Rightarrow> ('a \<Rightarrow> ('s, unit) prog) \<Rightarrow> ('s, unit) prog" where
  "for_each [] body = ret ()"
| "for_each (x # xs) body = bnd (body x) (\<lambda>_. for_each xs body)"

text \<open>
  \<^verbatim>\<open>xs[i]\<close> and \<^verbatim>\<open>xs[i] = v\<close> on a Python list raise \<open>IndexError\<close> out of range (the
  indices of the model are slot numbers, never negative).
\<close>

definition list_get :: "'a list \<Rightarrow> nat \<Rightarrow> 'a outcome" where
  "list_get xs i = (if i < length xs then Return (xs ! i) else Raise IndexError)"

section \<open>Curriculum configurations\<close>

text \<open>
  A configuration is a dict from field names to values. The state mutator is either a
  \<^verbatim>\<open>MutatorSequence\<close>, which has the attribute \<^verbatim>\<open>mutators\<close>, or a single mutator, which
  has not.
\<close>

datatype mutator =
    is_FixedTeamSizeMutator: FixedTeamSizeMutator (blue_size: int) (orange_size: int)
  | OtherMutator nat

datatype state_mutator = MutatorSequence "mutator list" | LoneMutator mutator

datatype cfg_value = IntVal int | StrVal string | MutatorVal state_mutator | OtherVal nat

type_synonym config = "(string, cfg_value) dict"

text \<open>The attribute access \<^verbatim>\<open>processed["state_mutator"].mutators\<close>.\<close>

fun get_mutators :: "cfg_value \<Rightarrow> mutator list outcome" where
  "get_mutators (MutatorVal (MutatorSequence ms)) = Return ms"
| "get_mutators _ = Raise AttributeError"

text \<open>
  \<^verbatim>\<open>VectorizedEnv._make_config_picklable\<close> (lines 289-305). \<^verbatim>\<open>dict(config)\<close> is a copy
  with the same items.
\<close>

definition make_config_picklable :: "config \<Rightarrow> config outcome" where
  "make_config_picklable config =
     (let processed = config in
      if map_of processed ''required_agents'' = None then
        (case map_of processed ''state_mutator'' of
           None \<Rightarrow> Raise KeyError
         | Some sm \<Rightarrow>
             (case get_mutators sm of
                Return ms \<Rightarrow>
                  (let team_mutators = filter is_FixedTeamSizeMutator ms in
                   if team_mutators \<noteq> [] then
                     Return (AList.update ''required_agents''
                       (IntVal (blue_size (team_mutators ! 0) + orange_size (team_mutators ! 0)))
                       processed)
                   else Return (AList.update ''required_agents'' (IntVal 1) processed))
              | Raise e \<Rightarrow> Raise e
              | Blocked \<Rightarrow> Blocked))
      else Return processed)"

section \<open>The opaque collaborators: simulation objects, the factory, the Action Stacker\<close>

text \<open>
  An action is a numpy array or a scalar; the loops at lines 79-83 and 312-316 leave an
  array as it is and turn a scalar \<open>a\<close> into the one-element array \<^verbatim>\<open>[int(a)]\<close>.
\<close>

datatype action = NdArray "int list" | PyNum int

type_synonym actions = "(agent_id, action) dict"
type_synonym fmt_actions = "(agent_id, int list) dict"

fun format_action :: "action \<Rightarrow> int list" where
  "format_action (NdArray a) = a"
| "format_action (PyNum n) = [n]"

text \<open>
  Modelled from the spec: the simulation object, whose class is not among the sources,
  with the interface of section 6 (\<^verbatim>\<open>reset\<close>, \<^verbatim>\<open>step\<close>, \<^verbatim>\<open>close\<close>, \<^verbatim>\<open>render\<close> and
  the mutable attribute \<^verbatim>\<open>renderer\<close>). It is a black box: the model keeps the calls made
  on it so far and lets the result of the next \<^verbatim>\<open>reset\<close>, \<^verbatim>\<open>step\<close> or \<^verbatim>\<open>close\<close> be
  any function of that history, so every deterministic behaviour is an instance. A call
  returns or raises; a simulation call that never returns is outside the model.
\<close>

datatype env_call = EnvReset | EnvStep fmt_actions | EnvClose | EnvRender | EnvSetInitialTick

record env =
  renderer :: "nat option"
  has_truncation_cond :: bool
  calls :: "env_call list"
  on_reset :: "env_call list \<Rightarrow> exn + obs_dict"
  on_step :: "env_call list \<Rightarrow> fmt_actions \<Rightarrow> exn + step_result"
  on_close :: "env_call list \<Rightarrow> exn option"

definition env_reset :: "env \<Rightarrow> (exn + obs_dict) \<times> env" where
  "env_reset e = (on_reset e (calls e), e\<lparr>calls := calls e @ [EnvReset]\<rparr>)"

definition env_step :: "fmt_actions \<Rightarrow> env \<Rightarrow> (exn + step_result) \<times> env" where
  "env_step a e = (on_step e (calls e) a, e\<lparr>calls := calls e @ [EnvStep a]\<rparr>)"

definition env_close :: "env \<Rightarrow> (exn + unit) \<times> env" where
  "env_close e =
     ((case on_close e (calls e) of None \<Rightarrow> Inr () | Some x \<Rightarrow> Inl x),
      e\<lparr>calls := calls e @ [EnvClose]\<rparr>)"

definition env_render :: "env \<Rightarrow> env" where
  "env_render e = e\<lparr>calls := calls e @ [EnvRender]\<rparr>"

text \<open>
  \<^verbatim>\<open>get_env\<close> lives in \<^verbatim>\<open>envs/factory.py\<close>, which is not among the sources: it is a
  parameter, a function from the renderer handle and the configuration to a new
  simulation object or an exception.
\<close>

type_synonym factory = "nat option \<Rightarrow> config option \<Rightarrow> exn + env"

text \<open>
  Modelled from the spec: the Action Stacker of section 4.3, whose class is not among the
  sources. Only the calls \<^verbatim>\<open>add_action\<close> and \<^verbatim>\<open>reset_agent\<close> made on it are recorded.
\<close>

datatype stacker_call = AddAction agent_id "int list" | ResetAgent agent_id

type_synonym stacker = "stacker_call list"

section \<open>The worker process\<close>

text \<open>
  The commands of the protocol and the replies. The start of the worker (lines 15-62:
  building the simulation, the renderer, the tick count) comes before the loop and is not
  part of the model: a worker of the model has its simulation.
\<close>

datatype cmd =
    CmdStep actions | CmdReset | CmdSetCurriculum config | CmdClose
  | CmdResetActionStacker agent_id

datatype msg = MsgStep step_result | MsgObs obs_dict | MsgAck

text \<open>
  What the worker prints about errors: the debug line of a failed reset attempt (line 104),
  the debug line of a failed rebuild (line 145) and the line of the outer handler
  (lines 165-166). The purely informative debug lines are left out.
\<close>

datatype log_line = DebugResetFailed nat exn | DebugRecreateFailed exn | ErrorInWorker exn

record worker =
  env_fn :: factory
  w_env :: env
  w_renderer :: "nat option"
  w_action_stacker :: "stacker option"
  curr_config :: "config option"
  w_debug :: bool
  running :: bool
  printed :: "log_line list"

definition catch :: "('s, 'a) prog \<Rightarrow> (exn \<Rightarrow> ('s, 'a) prog) \<Rightarrow> ('s, 'a) prog" where
  "catch m h s =
     (case m s of
        (Return x, s') \<Rightarrow> (Return x, s')
      | (Raise e, s') \<Rightarrow> h e s'
      | (Blocked, s') \<Rightarrow> (Blocked, s'))"

text \<open>A call on the worker's simulation object, the object's new state stored back.\<close>

definition on_env :: "(env \<Rightarrow> (exn + 'a) \<times> env) \<Rightarrow> (worker, 'a) prog" where
  "on_env f w =
     (case f (w_env w) of
        (Inl e, env') \<Rightarrow> (Raise e, w\<lparr>w_env := env'\<rparr>)
      | (Inr x, env') \<Rightarrow> (Return x, w\<lparr>w_env := env'\<rparr>))"

definition debug_print :: "log_line \<Rightarrow> (worker, unit) prog" where
  "debug_print l w = (Return (), if w_debug w then w\<lparr>printed := printed w @ [l]\<rparr> else w)"

text \<open>The \<^verbatim>\<open>step\<close> command, lines 75-89.\<close>

definition handle_step :: "actions \<Rightarrow> (worker, msg option) prog" where
  "handle_step actions_dict =
     (let formatted_actions = map (\<lambda>(agent_id, a). (agent_id, format_action a)) actions_dict in
      bnd (modify (\<lambda>w. w\<lparr>w_action_stacker :=
             map_option (\<lambda>h. h @ map (\<lambda>(agent_id, a). AddAction agent_id a) formatted_actions)
               (w_action_stacker w)\<rparr>))
        (\<lambda>_. bnd (on_env (env_step formatted_actions))
        (\<lambda>res. ret (Some (MsgStep res)))))"

text \<open>
  The \<^verbatim>\<open>reset\<close> command, lines 91-121. The loop runs over \<^verbatim>\<open>range(3)\<close>, the list
  \<open>[0, 1, 2]\<close>; its result is \<open>None\<close> when it ends with \<^verbatim>\<open>reset_success\<close> still false.
\<close>

fun reset_loop :: "nat list \<Rightarrow> (worker, obs_dict option) prog" where
  "reset_loop [] = ret None"
| "reset_loop (reset_attempt # rest) =
     catch (bnd (on_env env_reset) (\<lambda>obs. ret (Some obs)))
       (\<lambda>e. bnd (debug_print (DebugResetFailed (reset_attempt + 1) e))
          (\<lambda>_. if reset_attempt = 2 then raise e else reset_loop rest))"

definition set_initial_tick :: "(worker, unit) prog" where
  "set_initial_tick =
     modify (\<lambda>w. if has_truncation_cond (w_env w)
        then w\<lparr>w_env := (w_env w)\<lparr>calls := calls (w_env w) @ [EnvSetInitialTick]\<rparr>\<rparr>
        else w)"

definition handle_reset :: "(worker, msg option) prog" where
  "handle_reset =
     bnd (reset_loop [0, 1, 2])
       (\<lambda>r. case r of
          Some obs \<Rightarrow> bnd set_initial_tick (\<lambda>_. ret (Some (MsgObs obs)))
        | None \<Rightarrow> ret None)"

text \<open>
  The \<^verbatim>\<open>set_curriculum\<close> command, lines 123-146. \<^verbatim>\<open>curr_config\<close> is assigned before the
  \<^verbatim>\<open>try\<close>; the handler of the \<^verbatim>\<open>try\<close> prints in debug mode and raises again.
\<close>

definition handle_set_curriculum :: "config \<Rightarrow> (worker, msg option) prog" where
  "handle_set_curriculum data =
     bnd (modify (\<lambda>w. w\<lparr>curr_config := Some data\<rparr>))
       (\<lambda>_. catch
          (\<lambda>w. let temp_renderer = renderer (w_env w);
                   w1 = (if w_renderer w \<noteq> None
                         then w\<lparr>w_env := (w_env w)\<lparr>renderer := None\<rparr>\<rparr> else w)
               in bnd (on_env env_close)
                    (\<lambda>_ w2. case env_fn w2 (w_renderer w2) (curr_config w2) of
                        Inl e \<Rightarrow> (Raise e, w2)
                      | Inr new_env \<Rightarrow>
                          (Return (Some MsgAck),
                           w2\<lparr>w_env := (if w_renderer w2 \<noteq> None
                                          then new_env\<lparr>renderer := temp_renderer\<rparr>
                                          else new_env)\<rparr>)) w1)
          (\<lambda>e. bnd (debug_print (DebugRecreateFailed e)) (\<lambda>_. raise e)))"

text \<open>
  The \<^verbatim>\<open>close\<close> command, lines 148-153: it ends the loop (\<^verbatim>\<open>break\<close>) after closing
  the simulation object; nothing is sent.
\<close>

definition handle_close :: "(worker, msg option) prog" where
  "handle_close =
     bnd (on_env env_close) (\<lambda>_. bnd (modify (\<lambda>w. w\<lparr>running := False\<rparr>)) (\<lambda>_. ret None))"

text \<open>The \<^verbatim>\<open>reset_action_stacker\<close> command, lines 155-159.\<close>

definition handle_reset_action_stacker :: "agent_id \<Rightarrow> (worker, msg option) prog" where
  "handle_reset_action_stacker agent_id =
     bnd (modify (\<lambda>w. w\<lparr>w_action_stacker :=
            map_option (\<lambda>h. h @ [ResetAgent agent_id]) (w_action_stacker w)\<rparr>))
       (\<lambda>_. ret (Some MsgAck))"

fun handle_cmd :: "cmd \<Rightarrow> (worker, msg option) prog" where
  "handle_cmd (CmdStep actions_dict) = handle_step actions_dict"
| "handle_cmd CmdReset = handle_reset"
| "handle_cmd (CmdSetCurriculum data) = handle_set_curriculum data"
| "handle_cmd CmdClose = handle_close"
| "handle_cmd (CmdResetActionStacker agent_id) = handle_reset_action_stacker agent_id"

text \<open>
  One turn of the \<^verbatim>\<open>while True\<close> loop (lines 64-167) on a received command: the message
  sent back, if any, and the worker afterwards. \<^verbatim>\<open>except EOFError: break\<close> comes first and
  prints nothing; \<^verbatim>\<open>except Exception\<close> prints the error and breaks.
\<close>

definition worker_turn :: "cmd \<Rightarrow> worker \<Rightarrow> msg option \<times> worker" where
  "worker_turn c w =
     (case handle_cmd c w of
        (Return m, w') \<Rightarrow> (m, w')
      | (Raise e, w') \<Rightarrow>
          (None,
           (if e = EOFError then w' else w'\<lparr>printed := printed w' @ [ErrorInWorker e]\<rparr>)
             \<lparr>running := False\<rparr>)
      | (Blocked, w') \<Rightarrow> (None, w'))"

section \<open>The channel between the Coordinator and a worker\<close>

text \<open>
  The Coordinator's end of a \<^verbatim>\<open>multiprocessing.Pipe\<close>, with the worker process behind
  it. On every channel the Coordinator has at most one command outstanding, so the model
  lets the worker take its turn when the command is sent and queues the reply in
  \<open>inbox\<close>. From \<^verbatim>\<open>multiprocessing.connection\<close>: \<^verbatim>\<open>send\<close> and \<^verbatim>\<open>recv\<close> on a closed
  handle raise \<open>OSError\<close> (\<^verbatim>\<open>_check_closed\<close>), \<^verbatim>\<open>close\<close> on a closed handle does nothing,
  writing to a worker that has exited raises \<open>BrokenPipeError\<close>, reading from one raises
  \<open>EOFError\<close> once the queued replies are consumed, and reading from a live worker that
  owes no reply blocks.
\<close>

record remote =
  handle_closed :: bool
  peer :: worker
  inbox :: "msg list"
  sent :: "cmd list"

definition chan_send :: "cmd \<Rightarrow> remote \<Rightarrow> unit outcome \<times> remote" where
  "chan_send c r =
     (if handle_closed r then (Raise OSError, r)
      else if \<not> running (peer r) then (Raise BrokenPipeError, r)
      else (case worker_turn c (peer r) of
              (reply, w') \<Rightarrow>
                (Return (),
                 r\<lparr>peer := w',
                   inbox := inbox r @ (case reply of None \<Rightarrow> [] | Some m \<Rightarrow> [m]),
                   sent := sent r @ [c]\<rparr>)))"

definition chan_recv :: "remote \<Rightarrow> msg outcome \<times> remote" where
  "chan_recv r =
     (if handle_closed r then (Raise OSError, r)
      else (case inbox r of
              m # ms \<Rightarrow> (Return m, r\<lparr>inbox := ms\<rparr>)
            | [] \<Rightarrow> if running (peer r) then (Blocked, r) else (Raise EOFError, r)))"

definition chan_close :: "remote \<Rightarrow> unit outcome \<times> remote" where
  "chan_close r = (Return (), r\<lparr>handle_closed := True\<rparr>)"

section \<open>The Coordinator: state\<close>

text \<open>
  Modelled from the spec: the Curriculum Manager, whose class is not among the sources,
  with the interface of section 6 (\<^verbatim>\<open>get_environment_config\<close> and
  \<^verbatim>\<open>update_progression_stats\<close>). Its next configuration may depend on everything
  reported so far and on the number of configurations handed out; reports are recorded
  in order.
\<close>

record metrics =
  success :: bool
  timeout :: bool
  episode_reward :: rat

record manager =
  policy :: "metrics list \<Rightarrow> nat \<Rightarrow> config"
  reports :: "metrics list"
  config_calls :: nat

datatype exec_mode = ThreadMode | MultiprocessMode

datatype pool = PoolRunning | PoolShutDown

text \<open>
  The attributes of \<^verbatim>\<open>VectorizedEnv\<close>. An attribute that the constructor may not have
  created yet (\<^verbatim>\<open>hasattr\<close> is false) is \<open>None\<close>. Process \<open>p\<close> of \<open>processes\<close> runs the
  worker behind channel \<open>p\<close>. In thread mode \<open>action_stacker\<close> is the one shared stacker;
  in process mode every worker has its own copy and only \<^verbatim>\<open>is not None\<close> is read here.
  The lists hold values: the source aliases no two slots' dictionaries
  (\<^verbatim>\<open>[{} for _ in range(num_envs)]\<close>, and a fresh \<^verbatim>\<open>{}\<close> at each episode end).
\<close>

record vec_env =
  num_envs :: nat
  render :: bool
  action_stacker :: "stacker option"
  curriculum_manager :: "manager option"
  get_env :: factory
  episode_rewards :: "reward_dict list"
  episode_successes :: "bool list"
  episode_timeouts :: "bool list"
  curriculum_configs :: "config option list"
  mode :: exec_mode
  envs :: "env list option"
  executor :: "pool option"
  remotes :: "remote list option"
  processes :: "nat list option"
  obs_dicts :: "obs_dict list"
  dones :: "bool list"
  episode_counts :: "nat list"

text \<open>\<^verbatim>\<open>self.field[i]\<close> and \<^verbatim>\<open>self.field[i] = v\<close>.\<close>

definition read_at :: "('s \<Rightarrow> 'a list) \<Rightarrow> nat \<Rightarrow> ('s, 'a) prog" where
  "read_at field i s = (list_get (field s) i, s)"

definition assign_at ::
  "('s \<Rightarrow> 'a list) \<Rightarrow> (('a list \<Rightarrow> 'a list) \<Rightarrow> 's \<Rightarrow> 's) \<Rightarrow> nat \<Rightarrow> 'a \<Rightarrow> ('s, unit) prog" where
  "assign_at field upd i v s =
     (if i < length (field s) then (Return (), upd (\<lambda>xs. xs[i := v]) s)
      else (Raise IndexError, s))"

definition the_remotes :: "(vec_env, remote list) prog" where
  "the_remotes st =
     (case remotes st of None \<Rightarrow> (Raise AttributeError, st) | Some rs \<Rightarrow> (Return rs, st))"

definition with_remote :: "nat \<Rightarrow> (remote \<Rightarrow> 'a outcome \<times> remote) \<Rightarrow> (vec_env, 'a) prog" where
  "with_remote i f st =
     (case remotes st of
        None \<Rightarrow> (Raise AttributeError, st)
      | Some rs \<Rightarrow>
          if i < length rs
          then (case f (rs ! i) of (r, ch) \<Rightarrow> (r, st\<lparr>remotes := Some (rs[i := ch])\<rparr>))
          else (Raise IndexError, st))"

definition remote_send :: "nat \<Rightarrow> cmd \<Rightarrow> (vec_env, unit) prog" where
  "remote_send i c = with_remote i (chan_send c)"

definition remote_recv :: "nat \<Rightarrow> (vec_env, msg) prog" where
  "remote_recv i = with_remote i chan_recv"

definition update_progression_stats :: "metrics \<Rightarrow> (vec_env, unit) prog" where
  "update_progression_stats m =
     modify (\<lambda>st. st\<lparr>curriculum_manager :=
        map_option (\<lambda>g. g\<lparr>reports := reports g @ [m]\<rparr>) (curriculum_manager st)\<rparr>)"

definition get_environment_config :: "(vec_env, config) prog" where
  "get_environment_config st =
     (case curriculum_manager st of
        None \<Rightarrow> (Raise AttributeError, st)
      | Some g \<Rightarrow>
          (Return (policy g (reports g) (config_calls g)),
           st\<lparr>curriculum_manager := Some (g\<lparr>config_calls := config_calls g + 1\<rparr>)\<rparr>))"

section \<open>The Coordinator: \<^verbatim>\<open>step\<close> in process mode (lines 464-555)\<close>

text \<open>
  Lines 479-482 and 332-335: every reward of the step is added to the slot's accumulator,
  a new agent-id starting from 0.
\<close>

definition add_reward :: "reward_dict \<Rightarrow> agent_id \<times> rat \<Rightarrow> reward_dict" where
  "add_reward er p =
     (case p of (agent_id, reward) \<Rightarrow>
        (let er0 = (if map_of er agent_id = None then AList.update agent_id 0 er else er)
         in AList.update agent_id (the (map_of er0 agent_id) + reward) er0))"

definition accumulate :: "reward_dict \<Rightarrow> reward_dict \<Rightarrow> reward_dict" where
  "accumulate er reward_dict = foldl add_reward er reward_dict"

text \<open>
  Lines 474-482. \<^verbatim>\<open>self.episode_rewards[i]\<close> is read first (the \<^verbatim>\<open>isinstance\<close> test,
  which a dictionary passes).
\<close>

definition track_rewards :: "nat \<Rightarrow> reward_dict \<Rightarrow> (vec_env, unit) prog" where
  "track_rewards i reward_dict st =
     (if curriculum_manager st \<noteq> None
      then bnd (read_at episode_rewards i)
             (\<lambda>er. assign_at episode_rewards episode_rewards_update i (accumulate er reward_dict)) st
      else (Return (), st))"

text \<open>
  Lines 487-492, \<^verbatim>\<open>required\<close>; the test \<^verbatim>\<open>len(obs) == required\<close> of line 530 is
  \<open>IntVal (int (length obs)) = required\<close>.
\<close>

definition required_agents :: "config option \<Rightarrow> obs_dict \<Rightarrow> cfg_value" where
  "required_agents config next_obs_dict =
     (case config of
        None \<Rightarrow> IntVal (int (length next_obs_dict))
      | Some c \<Rightarrow>
          (case map_of c ''required_agents'' of
             Some v \<Rightarrow> v
           | None \<Rightarrow> IntVal (int (length next_obs_dict))))"

definition episode_metrics :: "bool \<Rightarrow> bool \<Rightarrow> reward_dict \<Rightarrow> metrics" where
  "episode_metrics succ tout er =
     \<lparr>success = succ, timeout = tout,
      episode_reward =
        (if length er > 0 then sum_list (py_values er) / of_nat (length er) else 0)\<rparr>"

text \<open>
  Lines 499-522: with a Curriculum Manager, report the episode, fetch and store the next
  configuration, have the worker rebuild its simulation and wait for the acknowledgment.
\<close>

definition report_episode :: "nat \<Rightarrow> (vec_env, unit) prog" where
  "report_episode i st =
     (if curriculum_manager st \<noteq> None
      then bnd (read_at episode_rewards i)
        (\<lambda>er. bnd (read_at episode_successes i)
        (\<lambda>succ. bnd (read_at episode_timeouts i)
        (\<lambda>tout. bnd (update_progression_stats (episode_metrics succ tout er))
        (\<lambda>_. bnd get_environment_config
        (\<lambda>new_config. bnd (\<lambda>s. (make_config_picklable new_config, s))
        (\<lambda>new_config. bnd (assign_at curriculum_configs curriculum_configs_update i (Some new_config))
        (\<lambda>_. bnd (remote_send i (CmdSetCurriculum new_config))
        (\<lambda>_. bnd (remote_recv i)
        (\<lambda>_. ret ()))))))))) st
      else (Return (), st))"

text \<open>
  Lines 526-535, the loop over \<^verbatim>\<open>range(max_reset_attempts)\<close>. A reply that is not an
  observation mapping cannot answer \<^verbatim>\<open>reset\<close>; it is modelled as a \<open>TypeError\<close>.
\<close>

fun reset_with_retry :: "nat list \<Rightarrow> nat \<Rightarrow> cfg_value \<Rightarrow> (vec_env, unit) prog" where
  "reset_with_retry [] i required = ret ()"
| "reset_with_retry (attempt # rest) i required =
     bnd (remote_send i CmdReset)
       (\<lambda>_. bnd (remote_recv i)
       (\<lambda>m. case m of
          MsgObs obs \<Rightarrow>
            if IntVal (int (length obs)) = required
            then assign_at obs_dicts obs_dicts_update i obs
            else reset_with_retry rest i required
        | _ \<Rightarrow> raise TypeError))"

text \<open>Lines 537-541.\<close>

definition reset_action_stackers :: "nat \<Rightarrow> obs_dict \<Rightarrow> (vec_env, unit) prog" where
  "reset_action_stackers i next_obs_dict st =
     (if action_stacker st \<noteq> None
      then for_each (py_keys next_obs_dict)
             (\<lambda>agent_id. bnd (remote_send i (CmdResetActionStacker agent_id))
                (\<lambda>_. bnd (remote_recv i) (\<lambda>_. ret ()))) st
      else (Return (), st))"

text \<open>Lines 495-546, the branch of a slot whose episode is over.\<close>

definition finish_episode ::
  "nat \<Rightarrow> cfg_value \<Rightarrow> obs_dict \<Rightarrow> flag_dict \<Rightarrow> flag_dict \<Rightarrow> (vec_env, unit) prog" where
  "finish_episode i required next_obs_dict terminated_dict truncated_dict =
     bnd (assign_at episode_successes episode_successes_update i
            (py_any (py_values terminated_dict)))
       (\<lambda>_. bnd (read_at episode_successes i)
       (\<lambda>succ. bnd (assign_at episode_timeouts episode_timeouts_update i
                      (py_any (py_values truncated_dict) \<and> \<not> succ))
       (\<lambda>_. bnd (report_episode i)
       (\<lambda>_. bnd (read_at episode_counts i)
       (\<lambda>n. bnd (assign_at episode_counts episode_counts_update i (n + 1))
       (\<lambda>_. bnd (reset_with_retry [0, 1, 2] i required)
       (\<lambda>_. bnd (reset_action_stackers i next_obs_dict)
       (\<lambda>_. bnd (assign_at episode_rewards episode_rewards_update i [])
       (\<lambda>_. bnd (assign_at episode_successes episode_successes_update i False)
       (\<lambda>_. assign_at episode_timeouts episode_timeouts_update i False))))))))))"

text \<open>
  Lines 472-551, the body of the collecting loop for slot \<open>i\<close>; its value is the tuple
  appended to \<^verbatim>\<open>results\<close>. A reply that is not a 4-tuple cannot answer \<^verbatim>\<open>step\<close>; it is
  modelled as a \<open>TypeError\<close>.
\<close>

definition collect_slot :: "nat \<Rightarrow> (vec_env, step_result) prog" where
  "collect_slot i =
     bnd (remote_recv i)
       (\<lambda>m. case m of
          MsgStep (next_obs_dict, reward_dict, terminated_dict, truncated_dict) \<Rightarrow>
            bnd (track_rewards i reward_dict)
              (\<lambda>_. bnd (assign_at dones dones_update i
                     (py_any (py_values terminated_dict) \<or> py_any (py_values truncated_dict)))
              (\<lambda>_. bnd (read_at curriculum_configs i)
              (\<lambda>config. bnd (read_at dones i)
              (\<lambda>d. bnd (if d
                        then finish_episode i (required_agents config next_obs_dict)
                               next_obs_dict terminated_dict truncated_dict
                        else assign_at obs_dicts obs_dicts_update i next_obs_dict)
              (\<lambda>_. ret (next_obs_dict, reward_dict, terminated_dict, truncated_dict))))))
        | _ \<Rightarrow> raise TypeError)"

fun collect :: "nat list \<Rightarrow> step_result list \<Rightarrow> (vec_env, step_result list) prog" where
  "collect [] results = ret results"
| "collect (i # rest) results = bnd (collect_slot i) (\<lambda>r. collect rest (results @ [r]))"

text \<open>
  Lines 465-467 send \<^verbatim>\<open>step\<close> along \<^verbatim>\<open>zip(self.remotes, actions_dict_list)\<close>, which stops
  at the shorter of the two; lines 471-555 collect from every channel and return copies of
  the two vectors.
\<close>

definition step_multiprocess ::
  "actions list \<Rightarrow> (vec_env, step_result list \<times> bool list \<times> nat list) prog" where
  "step_multiprocess actions_dict_list =
     bnd the_remotes
       (\<lambda>rs. bnd (for_each [0..<min (length rs) (length actions_dict_list)]
                    (\<lambda>k. remote_send k (CmdStep (actions_dict_list ! k))))
       (\<lambda>_. bnd (collect [0..<length rs] [])
       (\<lambda>results st. (Return (results, dones st, episode_counts st), st))))"

section \<open>The Coordinator: \<^verbatim>\<open>step\<close> in thread mode (lines 307-462)\<close>

definition the_envs :: "(vec_env, env list) prog" where
  "the_envs st =
     (case envs st of None \<Rightarrow> (Raise AttributeError, st) | Some es \<Rightarrow> (Return es, st))"

text \<open>A call on the simulation object \<^verbatim>\<open>self.envs[i]\<close>, the object's new state stored back.\<close>

definition on_slot_env :: "nat \<Rightarrow> (env \<Rightarrow> (exn + 'a) \<times> env) \<Rightarrow> (vec_env, 'a) prog" where
  "on_slot_env i f st =
     (case envs st of
        None \<Rightarrow> (Raise AttributeError, st)
      | Some es \<Rightarrow>
          if i < length es
          then (case f (es ! i) of
                  (Inl e, env') \<Rightarrow> (Raise e, st\<lparr>envs := Some (es[i := env'])\<rparr>)
                | (Inr x, env') \<Rightarrow> (Return x, st\<lparr>envs := Some (es[i := env'])\<rparr>))
          else (Raise IndexError, st))"

text \<open>
  Lines 330-335: the accumulator is touched once per reward, so an empty reward mapping
  reads nothing.
\<close>

definition track_rewards_thread :: "nat \<Rightarrow> reward_dict \<Rightarrow> (vec_env, unit) prog" where
  "track_rewards_thread env_idx reward_dict st =
     (if curriculum_manager st \<noteq> None \<and> reward_dict \<noteq> []
      then bnd (read_at episode_rewards env_idx)
             (\<lambda>er. assign_at episode_rewards episode_rewards_update env_idx
                (accumulate er reward_dict)) st
      else (Return (), st))"

text \<open>
  \<^verbatim>\<open>_step_env\<close>, lines 307-337. The simulation object of the argument tuple is
  \<^verbatim>\<open>self.envs[env_idx]\<close> itself.
\<close>

definition step_env :: "nat \<times> actions \<Rightarrow> (vec_env, nat \<times> step_result) prog" where
  "step_env args =
     (case args of (env_idx, actions_dict) \<Rightarrow>
        (let formatted_actions = map (\<lambda>(agent_id, a). (agent_id, format_action a)) actions_dict in
         bnd (modify (\<lambda>st. st\<lparr>action_stacker :=
                map_option (\<lambda>h. h @ map (\<lambda>(agent_id, a). AddAction agent_id a) formatted_actions)
                  (action_stacker st)\<rparr>))
           (\<lambda>_. bnd (on_slot_env env_idx (env_step formatted_actions))
           (\<lambda>res. bnd (\<lambda>st. if render st \<and> env_idx = 0
                             then on_slot_env env_idx (\<lambda>e. (Inr (), env_render e)) st
                             else (Return (), st))
           (\<lambda>_. bnd (track_rewards_thread env_idx (fst (snd res)))
           (\<lambda>_. ret (env_idx, res)))))))"

text \<open>
  Lines 344-356. Every task of the comprehension is submitted before any result is
  awaited, so every task runs, whatever the others do; the model runs them in slot order.
  \<^verbatim>\<open>future.result()\<close> raises what its task raised: \<open>gather\<close> propagates the first failure
  (in slot order; the source meets them in completion order). The successful results,
  sorted by slot index, are in slot order.
\<close>

fun run_tasks ::
  "(nat \<times> actions) list \<Rightarrow> vec_env \<Rightarrow> (nat \<times> step_result) outcome list \<times> vec_env" where
  "run_tasks [] st = ([], st)"
| "run_tasks (t # ts) st =
     (case step_env t st of
        (r, st1) \<Rightarrow> (case run_tasks ts st1 of (rs, st2) \<Rightarrow> (r # rs, st2)))"

fun gather :: "'a outcome list \<Rightarrow> 'a list outcome" where
  "gather [] = Return []"
| "gather (Return x # rest) =
     (case gather rest of Return xs \<Rightarrow> Return (x # xs) | Raise e \<Rightarrow> Raise e | Blocked \<Rightarrow> Blocked)"
| "gather (Raise e # rest) = Raise e"
| "gather (Blocked # rest) = Blocked"

text \<open>\<^verbatim>\<open>self.executor.submit\<close>: a pool that was shut down accepts no new task.\<close>

definition submit_check :: "(vec_env, unit) prog" where
  "submit_check st =
     (case executor st of
        None \<Rightarrow> (Raise AttributeError, st)
      | Some PoolShutDown \<Rightarrow> (Raise RuntimeError, st)
      | Some PoolRunning \<Rightarrow> (Return (), st))"

text \<open>
  Lines 358-462, the loop over the sorted results. The name \<^verbatim>\<open>i\<close> is a local variable
  of \<^verbatim>\<open>step\<close> (the loop of the process branch, line 471, assigns it); the comprehension
  of line 346 has a scope of its own and binds nothing in \<^verbatim>\<open>step\<close>. In the thread branch
  \<^verbatim>\<open>i\<close> is therefore unbound, and reading it at line 364,
  \<^verbatim>\<open>config = self.curriculum_configs[i]\<close>, raises \<open>UnboundLocalError\<close> for the first result,
  after line 361 has stored the done flag. Lines 365-462 are never reached and have no
  counterpart here.
\<close>

fun process_results ::
  "(nat \<times> step_result) list \<Rightarrow> step_result list \<Rightarrow> (vec_env, step_result list) prog" where
  "process_results [] processed_results = ret processed_results"
| "process_results ((env_idx, next_obs_dict, reward_dict, terminated_dict, truncated_dict) # rest)
       processed_results =
     bnd (assign_at dones dones_update env_idx
            (py_any (py_values terminated_dict) \<or> py_any (py_values truncated_dict)))
       (\<lambda>_. raise UnboundLocalError)"

definition step_thread ::
  "actions list \<Rightarrow> (vec_env, step_result list \<times> bool list \<times> nat list) prog" where
  "step_thread actions_dict_list =
     bnd the_envs
       (\<lambda>es. let tasks = filter (\<lambda>(i, actions_dict). actions_dict \<noteq> [])
                           (zip [0..<length es] actions_dict_list)
             in bnd (if tasks = [] then ret () else submit_check)
               (\<lambda>_. bnd (\<lambda>st. case run_tasks tasks st of (outs, st') \<Rightarrow> (gather outs, st'))
               (\<lambda>results. bnd (process_results results [])
               (\<lambda>processed_results st.
                  (Return (processed_results, dones st, episode_counts st), st)))))"

definition step ::
  "actions list \<Rightarrow> (vec_env, step_result list \<times> bool list \<times> nat list) prog" where
  "step actions_dict_list st =
     (if mode st = ThreadMode then step_thread actions_dict_list st
      else step_multiprocess actions_dict_list st)"

section \<open>The Coordinator: \<^verbatim>\<open>force_env_reset\<close> and \<^verbatim>\<open>close\<close>\<close>

text \<open>
  \<^verbatim>\<open>force_env_reset\<close>, lines 557-573. A simulation object always has the attribute
  \<^verbatim>\<open>renderer\<close>.
\<close>

definition force_env_reset :: "nat \<Rightarrow> (vec_env, unit) prog" where
  "force_env_reset env_idx st =
     (if mode st = ThreadMode
      then bnd the_envs
        (\<lambda>es. bnd (\<lambda>s. (list_get es env_idx, s))
        (\<lambda>e. let existing_renderer = (if env_idx = 0 \<and> render st then renderer e else None) in
           bnd (if existing_renderer \<noteq> None
                then on_slot_env env_idx (\<lambda>e. (Inr (), e\<lparr>renderer := None\<rparr>))
                else ret ())
        (\<lambda>_. bnd (on_slot_env env_idx env_close)
        (\<lambda>_. bnd (read_at curriculum_configs env_idx)
        (\<lambda>config s. case get_env s existing_renderer config of
             Inl x \<Rightarrow> (Raise x, s)
           | Inr new_env \<Rightarrow>
               bnd (on_slot_env env_idx (\<lambda>_. (Inr (), new_env)))
                 (\<lambda>_. bnd (on_slot_env env_idx env_reset)
                 (\<lambda>obs. assign_at obs_dicts obs_dicts_update env_idx obs)) s))))) st
      else (Return (), st))"

text \<open>
  \<^verbatim>\<open>close\<close> in thread mode, lines 577-585. \<^verbatim>\<open>shutdown\<close> of a pool that is shut down
  does nothing.
\<close>

definition close_thread :: "(vec_env, unit) prog" where
  "close_thread =
     bnd (modify (\<lambda>st. st\<lparr>executor := map_option (\<lambda>_. PoolShutDown) (executor st)\<rparr>))
       (\<lambda>_ st. case envs st of
           None \<Rightarrow> (Return (), st)
         | Some es \<Rightarrow> for_each [0..<length es] (\<lambda>k. on_slot_env k env_close) st)"

text \<open>
  \<^verbatim>\<open>close\<close> in process mode, lines 587-607. The first loop tolerates \<open>BrokenPipeError\<close>
  and \<open>EOFError\<close> only; the last one tolerates everything. A process is alive while its
  worker loop runs: a worker that took \<^verbatim>\<open>close\<close> has left the loop when \<^verbatim>\<open>join\<close> returns,
  any other is terminated.
\<close>

definition send_close :: "nat \<Rightarrow> (vec_env, unit) prog" where
  "send_close k =
     catch (remote_send k CmdClose)
       (\<lambda>e. if e = BrokenPipeError \<or> e = EOFError then ret () else raise e)"

definition join_or_terminate :: "nat \<Rightarrow> (vec_env, unit) prog" where
  "join_or_terminate p =
     modify (\<lambda>st. case remotes st of
        None \<Rightarrow> st
      | Some rs \<Rightarrow>
          if p < length rs \<and> running (peer (rs ! p))
          then st\<lparr>remotes := Some (rs[p := (rs ! p)\<lparr>peer := (peer (rs ! p))\<lparr>running := False\<rparr>\<rparr>])\<rparr>
          else st)"

definition close_channel :: "nat \<Rightarrow> (vec_env, unit) prog" where
  "close_channel k = catch (with_remote k chan_close) (\<lambda>e. ret ())"

definition close_multiprocess :: "(vec_env, unit) prog" where
  "close_multiprocess =
     bnd (\<lambda>st. case remotes st of
            None \<Rightarrow> (Return (), st)
          | Some rs \<Rightarrow> for_each [0..<length rs] send_close st)
       (\<lambda>_. bnd (\<lambda>st. case processes st of
                     None \<Rightarrow> (Return (), st)
                   | Some ps \<Rightarrow> for_each ps join_or_terminate st)
       (\<lambda>_ st. case remotes st of
           None \<Rightarrow> (Return (), st)
         | Some rs \<Rightarrow> for_each [0..<length rs] close_channel st))"

definition close :: "(vec_env, unit) prog" where
  "close st = (if mode st = ThreadMode then close_thread st else close_multiprocess st)"

section \<open>The Coordinator: construction (lines 195-221 and 261-283)\<close>

text \<open>
  Lines 196-221, the loop over \<^verbatim>\<open>range(num_envs)\<close> that fills
  \<^verbatim>\<open>self.curriculum_configs\<close>. In debug mode the loop reads \<^verbatim>\<open>config['stage_name']\<close>
  and \<^verbatim>\<open>config['state_mutator']\<close>, which must exist.
\<close>

fun init_configs ::
  "nat list \<Rightarrow> bool \<Rightarrow> bool \<Rightarrow> manager option \<Rightarrow> config option list
     \<Rightarrow> config option list outcome \<times> manager option" where
  "init_configs [] rnd dbg mgr configs = (Return configs, mgr)"
| "init_configs (env_idx # rest) rnd dbg mgr configs =
     (case mgr of
        None \<Rightarrow> init_configs rest rnd dbg mgr (configs @ [None])
      | Some g \<Rightarrow>
          (let config = policy g (reports g) (config_calls g);
               mgr' = Some (g\<lparr>config_calls := config_calls g + 1\<rparr>)
           in if dbg \<and> (map_of config ''stage_name'' = None \<or> map_of config ''state_mutator'' = None)
              then (Raise KeyError, mgr')
              else if \<not> rnd
              then (case make_config_picklable config of
                      Return c \<Rightarrow> init_configs rest rnd dbg mgr' (configs @ [Some c])
                    | Raise e \<Rightarrow> (Raise e, mgr')
                    | Blocked \<Rightarrow> (Blocked, mgr'))
              else init_configs rest rnd dbg mgr' (configs @ [Some config])))"

text \<open>
  Lines 261-283, the collection of the initial observations. Time is abstract: for each
  channel, \<open>arrival\<close> says when the reply to the initial \<^verbatim>\<open>reset\<close> becomes readable,
  counted from the moment the Coordinator starts to wait on that channel, or that it never
  does; \<open>waited\<close> is the time the Coordinator has spent on the channel when its last call
  on it returned. \<^verbatim>\<open>select.select(rlist, [], [], timeout)\<close> returns a tuple of three lists, the
  first holding the channel when it became readable within the timeout; it returns at that
  moment, or at the timeout. \<^verbatim>\<open>recv\<close> returns when the reply is there.
\<close>

datatype arrival = ArrivesAt nat obs_dict | NeverArrives

record init_remote =
  arrival :: arrival
  waited :: nat
  close_sent :: bool

definition select_select :: "init_remote \<Rightarrow> nat \<Rightarrow> (unit list \<times> unit list \<times> unit list) \<times> init_remote" where
  "select_select r t =
     (case arrival r of
        ArrivesAt a obs \<Rightarrow>
          if a \<le> t then (([()], [], []), r\<lparr>waited := a\<rparr>)
          else (([], [], []), r\<lparr>waited := t\<rparr>)
      | NeverArrives \<Rightarrow> (([], [], []), r\<lparr>waited := t\<rparr>))"

text \<open>
  The truth value of a Python tuple: false for the empty tuple only. A tuple of three
  lists is true, whatever the lists hold.
\<close>

definition py_bool_triple :: "'a \<times> 'b \<times> 'c \<Rightarrow> bool" where
  "py_bool_triple t = True"

definition recv_initial :: "init_remote \<Rightarrow> obs_dict outcome \<times> init_remote" where
  "recv_initial r =
     (case arrival r of
        ArrivesAt a obs \<Rightarrow> (Return obs, r\<lparr>waited := max (waited r) a\<rparr>)
      | NeverArrives \<Rightarrow> (Blocked, r))"

text \<open>
  The loop of lines 267-283 over the channels; \<open>has_poll\<close> is the test
  \<^verbatim>\<open>hasattr(remote, 'poll') and hasattr(select, 'select')\<close>. The result pairs the
  outcome with the channels visited so far, as the loop left them.
\<close>

fun collect_initial ::
  "bool \<Rightarrow> init_remote list \<Rightarrow> obs_dict list \<Rightarrow> obs_dict list outcome \<times> init_remote list" where
  "collect_initial has_poll [] obs_dicts0 = (Return obs_dicts0, [])"
| "collect_initial has_poll (r # rest) obs_dicts0 =
     (if has_poll
      then (case select_select r 30 of
              (ready, r1) \<Rightarrow>
                if py_bool_triple ready
                then (case recv_initial r1 of
                        (Return obs, r2) \<Rightarrow>
                          (case collect_initial has_poll rest (obs_dicts0 @ [obs]) of
                             (res, rs) \<Rightarrow> (res, r2 # rs))
                      | (Raise e, r2) \<Rightarrow> (Raise e, [r2])
                      | (Blocked, r2) \<Rightarrow> (Blocked, [r2]))
                else (case collect_initial has_poll rest (obs_dicts0 @ [[]]) of
                        (res, rs) \<Rightarrow> (res, r1\<lparr>close_sent := True\<rparr> # rs)))
      else (case recv_initial r of
              (Return obs, r2) \<Rightarrow>
                (case collect_initial has_poll rest (obs_dicts0 @ [obs]) of
                   (res, rs) \<Rightarrow> (res, r2 # rs))
            | (Raise e, r2) \<Rightarrow> (Raise e, [r2])
            | (Blocked, r2) \<Rightarrow> (Blocked, [r2])))"

section \<open>Relations that a program keeps\<close>

text \<open>
  \<open>keeps R m\<close>: whatever the outcome of \<open>m\<close> (a return, an exception, a block), the state
  it leaves is related by \<open>R\<close> to the state it started from. \<open>slot_frame j\<close> relates two
  states that agree on slot \<open>j\<close>'s retained observations, reward accumulator and done flag.
\<close>

definition keeps :: "('s \<Rightarrow> 's \<Rightarrow> bool) \<Rightarrow> ('s, 'a) prog \<Rightarrow> bool" where
  "keeps R m = (\<forall>s. R s (snd (m s)))"

definition preorder_on_states :: "('s \<Rightarrow> 's \<Rightarrow> bool) \<Rightarrow> bool" where
  "preorder_on_states R = ((\<forall>s. R s s) \<and> (\<forall>a b c. R a b \<longrightarrow> R b c \<longrightarrow> R a c))"

definition slot_frame :: "nat \<Rightarrow> vec_env \<Rightarrow> vec_env \<Rightarrow> bool" where
  "slot_frame j s s' =
     (obs_dicts s' ! j = obs_dicts s ! j \<and> episode_rewards s' ! j = episode_rewards s ! j \<and>
      dones s' ! j = dones s ! j)"

text \<open>
  \<open>calls_added A w w'\<close>: the simulation object of worker \<open>w'\<close> is the object of \<open>w\<close> with
  further calls on it, all of them in \<open>A\<close>; it was neither replaced nor rebuilt.
  \<open>resets_only k r r'\<close>: between the channel states \<open>r\<close> and \<open>r'\<close> the Coordinator sent
  \<open>k\<close> times \<^verbatim>\<open>reset\<close> and nothing else, and the worker only reset its simulation.
\<close>

definition calls_added :: "env_call set \<Rightarrow> worker \<Rightarrow> worker \<Rightarrow> bool" where
  "calls_added A w w' =
     (\<exists>cs. set cs \<subseteq> A \<and> w_env w' = (w_env w)\<lparr>calls := calls (w_env w) @ cs\<rparr>)"

definition resets_only :: "nat \<Rightarrow> remote \<Rightarrow> remote \<Rightarrow> bool" where
  "resets_only k r r' =
     (handle_closed r' = handle_closed r \<and> sent r' = sent r @ replicate k CmdReset \<and>
      calls_added {EnvReset, EnvSetInitialTick} (peer r) (peer r'))"

text \<open>
  One round of the Coordinator's reset loop on a channel \<open>r\<close> (lines 527-528): send
  \<^verbatim>\<open>reset\<close> and, when the send went through, receive. The result is what the receive
  gave, or the outcome of the send that failed, with the channel as it is then.
\<close>

definition reset_exchange :: "remote \<Rightarrow> msg outcome \<times> remote" where
  "reset_exchange r =
     (case chan_send CmdReset r of
        (Return u, r1) \<Rightarrow> chan_recv r1
      | (Raise e, r1) \<Rightarrow> (Raise e, r1)
      | (Blocked, r1) \<Rightarrow> (Blocked, r1))"

text \<open>
  Every configuration a list of slots holds has the key \<^verbatim>\<open>required_agents\<close>; \<open>configs_rel\<close>
  relates two states when that property of the stored configurations carries over from
  the first to the second.
\<close>

definition configs_have_required :: "config option list \<Rightarrow> bool" where
  "configs_have_required cs = (\<forall>c. Some c \<in> set cs \<longrightarrow> map_of c ''required_agents'' \<noteq> None)"

definition configs_rel :: "vec_env \<Rightarrow> vec_env \<Rightarrow> bool" where
  "configs_rel s s' =
     (configs_have_required (curriculum_configs s) \<longrightarrow>
      configs_have_required (curriculum_configs s'))"

text \<open>\<open>reports_kept\<close> relates two states in which the Curriculum Manager holds the same reports.\<close>

definition reports_kept :: "vec_env \<Rightarrow> vec_env \<Rightarrow> bool" where
  "reports_kept s s' =
     (map_option reports (curriculum_manager s') = map_option reports (curriculum_manager s))"

section \<open>Concrete simulations, workers and Coordinators\<close>

text \<open>
  A simulation whose \<^verbatim>\<open>reset\<close> always returns \<open>ob\<close> and whose \<^verbatim>\<open>step\<close> always returns
  \<open>r\<close>; a worker process around a simulation, with the factory it rebuilds from; the
  Coordinator's end of the channel to it.
\<close>

definition stub_env :: "obs_dict \<Rightarrow> step_result \<Rightarrow> env" where
  "stub_env ob r =
     \<lparr>renderer = None, has_truncation_cond = False, calls = [],
      on_reset = (\<lambda>h. Inr ob), on_step = (\<lambda>h a. Inr r), on_close = (\<lambda>h. None)\<rparr>"

definition stub_worker :: "factory \<Rightarrow> env \<Rightarrow> worker" where
  "stub_worker f e =
     \<lparr>env_fn = f, w_env = e, w_renderer = None, w_action_stacker = None,
      curr_config = None, w_debug = False, running = True, printed = []\<rparr>"

definition stub_remote :: "worker \<Rightarrow> remote" where
  "stub_remote w = \<lparr>handle_closed = False, peer = w, inbox = [], sent = []\<rparr>"

text \<open>One agent, whose episode ends at every step; two agents likewise.\<close>

definition one_agent_env :: env where
  "one_agent_env = stub_env [(0, 0)] ([(0, 1)], [(0, 1)], [(0, True)], [(0, False)])"

definition two_agent_env :: env where
  "two_agent_env =
     stub_env [(0, 0), (1, 0)]
       ([(0, 1), (1, 1)], [(0, 1), (1, 1)], [(0, True), (1, True)], [(0, False), (1, False)])"

text \<open>
  A Coordinator with one slot in process mode, as the constructor leaves it: the slot's
  configuration \<open>c\<close>, its first observations \<open>ob\<close>, the channel \<open>r\<close>.
\<close>

definition process_coordinator ::
  "manager option \<Rightarrow> config option \<Rightarrow> obs_dict \<Rightarrow> remote \<Rightarrow> vec_env" where
  "process_coordinator g c ob r =
     \<lparr>num_envs = 1, render = False, action_stacker = None, curriculum_manager = g,
      get_env = (\<lambda>rd cf. Inr one_agent_env),
      episode_rewards = [[]], episode_successes = [False], episode_timeouts = [False],
      curriculum_configs = [c], mode = MultiprocessMode,
      envs = None, executor = None, remotes = Some [r], processes = Some [0],
      obs_dicts = [ob], dones = [False], episode_counts = [0]\<rparr>"

text \<open>A Coordinator with one slot in thread mode (rendering), as the constructor leaves it.\<close>

definition thread_coordinator :: "manager option \<Rightarrow> config option \<Rightarrow> env \<Rightarrow> vec_env" where
  "thread_coordinator g c e =
     \<lparr>num_envs = 1, render = True, action_stacker = None, curriculum_manager = g,
      get_env = (\<lambda>rd cf. Inr (e\<lparr>renderer := rd\<rparr>)),
      episode_rewards = [[]], episode_successes = [False], episode_timeouts = [False],
      curriculum_configs = [c], mode = ThreadMode,
      envs = Some [e\<lparr>renderer := Some 0\<rparr>], executor = Some PoolRunning,
      remotes = None, processes = None,
      obs_dicts = [[(0, 0)]], dones = [False], episode_counts = [0]\<rparr>"

text \<open>
  One agent whose episode goes on; a simulation whose \<^verbatim>\<open>step\<close> shows one agent, ending
  its episode, and whose \<^verbatim>\<open>reset\<close> shows two.
\<close>

definition calm_env :: env where
  "calm_env = stub_env [(0, 0)] ([(0, 1)], [(0, 1)], [(0, False)], [(0, False)])"

definition mismatch_env :: env where
  "mismatch_env = stub_env [(0, 0), (1, 0)] ([(0, 1)], [(0, 1)], [(0, True)], [(0, False)])"

text \<open>
  A one-slot Coordinator in process mode without Curriculum Manager, its worker running
  the simulation \<open>e\<close>.
\<close>

definition plain_coordinator :: "env \<Rightarrow> vec_env" where
  "plain_coordinator e =
     process_coordinator None None [(0, 0)] (stub_remote (stub_worker (\<lambda>rd cf. Inr e) e))"

text \<open>
  A curriculum that moves from one agent to two: the slot's stored configuration (as
  \<^verbatim>\<open>_make_config_picklable\<close> left it) asks for one agent, every configuration the
  manager hands out from now on is a one-against-one team.
\<close>

definition solo_config :: config where
  "solo_config =
     [(''state_mutator'', MutatorVal (MutatorSequence [FixedTeamSizeMutator 1 0])),
      (''required_agents'', IntVal 1)]"

definition duel_config :: config where
  "duel_config = [(''state_mutator'', MutatorVal (MutatorSequence [FixedTeamSizeMutator 1 1]))]"

definition duel_manager :: manager where
  "duel_manager = \<lparr>policy = (\<lambda>rs n. duel_config), reports = [], config_calls = 1\<rparr>"

text \<open>
  The one-slot Coordinator of that curriculum in process mode, the worker running the
  one-agent simulation; the factory rebuilds a simulation \<open>e\<close>.
\<close>

definition curriculum_coordinator :: "env \<Rightarrow> vec_env" where
  "curriculum_coordinator e =
     process_coordinator (Some duel_manager) (Some solo_config) [(0, 0)]
       (stub_remote (stub_worker (\<lambda>rd cf. Inr e) one_agent_env))"

text \<open>Two slots in process mode; slot 1 is in the middle of an episode.\<close>

definition two_slot_coordinator :: vec_env where
  "two_slot_coordinator =
     (plain_coordinator one_agent_env)
     \<lparr>num_envs := 2, episode_rewards := [[], [(0, 3)]], episode_successes := [False, False],
      episode_timeouts := [False, False], curriculum_configs := [None, None],
      remotes := Some [stub_remote (stub_worker (\<lambda>rd cf. Inr one_agent_env) one_agent_env),
                       stub_remote (stub_worker (\<lambda>rd cf. Inr one_agent_env) one_agent_env)],
      processes := Some [0, 1], obs_dicts := [[(0, 0)], [(0, 7)]], dones := [False, False],
      episode_counts := [0, 0]\<rparr>"

text \<open>
  A simulation with a truncation condition whose \<^verbatim>\<open>reset\<close> raises \<open>x\<close> as long as fewer
  than \<open>n\<close> calls were made on it and returns one agent afterwards; a simulation on which
  every \<^verbatim>\<open>reset\<close> and \<^verbatim>\<open>step\<close> raises \<open>x\<close>; the one-agent simulation with a
  \<^verbatim>\<open>reset\<close> that always raises.
\<close>

definition flaky_env :: "nat \<Rightarrow> exn \<Rightarrow> env" where
  "flaky_env n x =
     \<lparr>renderer = None, has_truncation_cond = True, calls = [],
      on_reset = (\<lambda>h. if length h < n then Inl x else Inr [(0, 0)]),
      on_step = (\<lambda>h a. Inl x), on_close = (\<lambda>h. None)\<rparr>"

definition failing_env :: "exn \<Rightarrow> env" where
  "failing_env x =
     \<lparr>renderer = None, has_truncation_cond = False, calls = [],
      on_reset = (\<lambda>h. Inl x), on_step = (\<lambda>h a. Inl x), on_close = (\<lambda>h. None)\<rparr>"

definition broken_reset_env :: env where
  "broken_reset_env = one_agent_env\<lparr>on_reset := (\<lambda>h. Inl (SimError 0))\<rparr>"

text \<open>
  A simulation whose \<^verbatim>\<open>reset\<close> shows two agents as long as fewer than \<open>n\<close> calls were
  made on it and one agent, with observation 5, afterwards.
\<close>

definition settling_env :: "nat \<Rightarrow> env" where
  "settling_env n =
     \<lparr>renderer = None, has_truncation_cond = False, calls = [],
      on_reset = (\<lambda>h. if length h < n then Inr [(0, 0), (1, 0)] else Inr [(0, 5)]),
      on_step = (\<lambda>h a. Inr ([(0, 1)], [(0, 1)], [(0, True)], [(0, False)])),
      on_close = (\<lambda>h. None)\<rparr>"

section \<open>The worker's \<^verbatim>\<open>reset\<close> command\<close>

lemmas worker_reset_unfold =
  worker_turn_def handle_reset_def catch_def bnd_def on_env_def env_reset_def debug_print_def
  raise_def ret_def set_initial_tick_def modify_def

text \<open>
  Claim C8, as amended. On \<^verbatim>\<open>reset\<close> the worker calls the simulation's \<^verbatim>\<open>reset\<close> up to
  three times, stopping at the first call that returns; it then sends that observation
  mapping and goes on running. When all three calls raise it sends nothing and leaves its
  loop; the outer handler prints the last error unless it is an \<open>EOFError\<close>, which ends the
  loop silently (\<^verbatim>\<open>except EOFError: break\<close>, line 161). In debug mode every failed attempt
  is printed as well. The results of the three calls are \<open>on_reset\<close> at the call history
  of the simulation, extended by one \<open>EnvReset\<close> per earlier attempt.
\<close>

theorem worker_reset_retries:
  "(on_reset (w_env w) (calls (w_env w)) = Inr obs \<longrightarrow>
      fst (worker_turn CmdReset w) = Some (MsgObs obs) \<and>
      running (snd (worker_turn CmdReset w)) = running w \<and>
      printed (snd (worker_turn CmdReset w)) = printed w \<and>
      calls (w_env (snd (worker_turn CmdReset w))) =
        calls (w_env w) @ [EnvReset] @
          (if has_truncation_cond (w_env w) then [EnvSetInitialTick] else [])) \<and>
   (on_reset (w_env w) (calls (w_env w)) = Inl x1 \<and>
    on_reset (w_env w) (calls (w_env w) @ [EnvReset]) = Inr obs \<longrightarrow>
      fst (worker_turn CmdReset w) = Some (MsgObs obs) \<and>
      running (snd (worker_turn CmdReset w)) = running w \<and>
      printed (snd (worker_turn CmdReset w)) =
        printed w @ (if w_debug w then [DebugResetFailed 1 x1] else []) \<and>
      calls (w_env (snd (worker_turn CmdReset w))) =
        calls (w_env w) @ [EnvReset, EnvReset] @
          (if has_truncation_cond (w_env w) then [EnvSetInitialTick] else [])) \<and>
   (on_reset (w_env w) (calls (w_env w)) = Inl x1 \<and>
    on_reset (w_env w) (calls (w_env w) @ [EnvReset]) = Inl x2 \<and>
    on_reset (w_env w) (calls (w_env w) @ [EnvReset, EnvReset]) = Inr obs \<longrightarrow>
      fst (worker_turn CmdReset w) = Some (MsgObs obs) \<and>
      running (snd (worker_turn CmdReset w)) = running w \<and>
      printed (snd (worker_turn CmdReset w)) =
        printed w @ (if w_debug w then [DebugResetFailed 1 x1, DebugResetFailed 2 x2] else []) \<and>
      calls (w_env (snd (worker_turn CmdReset w))) =
        calls (w_env w) @ [EnvReset, EnvReset, EnvReset] @
          (if has_truncation_cond (w_env w) then [EnvSetInitialTick] else [])) \<and>
   (on_reset (w_env w) (calls (w_env w)) = Inl x1 \<and>
    on_reset (w_env w) (calls (w_env w) @ [EnvReset]) = Inl x2 \<and>
    on_reset (w_env w) (calls (w_env w) @ [EnvReset, EnvReset]) = Inl x3 \<longrightarrow>
      fst (worker_turn CmdReset w) = None \<and>
      running (snd (worker_turn CmdReset w)) = False \<and>
      printed (snd (worker_turn CmdReset w)) =
        printed w
        @ (if w_debug w
           then [DebugResetFailed 1 x1, DebugResetFailed 2 x2, DebugResetFailed 3 x3] else [])
        @ (if x3 = EOFError then [] else [ErrorInWorker x3]) \<and>
      calls (w_env (snd (worker_turn CmdReset w))) =
        calls (w_env w) @ [EnvReset, EnvReset, EnvReset])"
  by (simp add: worker_reset_unfold)


text \<open>
  The theorem at four workers without debug output: the simulation's \<^verbatim>\<open>reset\<close> succeeds
  at once, at the second call, at the third call, or raises \<open>SimError 7\<close> three times.
\<close>

theorem worker_reset_retries_witness:
  "fst (worker_turn CmdReset (stub_worker (\<lambda>rd cf. Inr one_agent_env) (flaky_env 0 (SimError 7))))
     = Some (MsgObs [(0, 0)]) \<and>
   calls (w_env (snd (worker_turn CmdReset
       (stub_worker (\<lambda>rd cf. Inr one_agent_env) (flaky_env 0 (SimError 7))))))
     = [EnvReset, EnvSetInitialTick] \<and>
   fst (worker_turn CmdReset (stub_worker (\<lambda>rd cf. Inr one_agent_env) (flaky_env 1 (SimError 7))))
     = Some (MsgObs [(0, 0)]) \<and>
   calls (w_env (snd (worker_turn CmdReset
       (stub_worker (\<lambda>rd cf. Inr one_agent_env) (flaky_env 1 (SimError 7))))))
     = [EnvReset, EnvReset, EnvSetInitialTick] \<and>
   fst (worker_turn CmdReset (stub_worker (\<lambda>rd cf. Inr one_agent_env) (flaky_env 2 (SimError 7))))
     = Some (MsgObs [(0, 0)]) \<and>
   calls (w_env (snd (worker_turn CmdReset
       (stub_worker (\<lambda>rd cf. Inr one_agent_env) (flaky_env 2 (SimError 7))))))
     = [EnvReset, EnvReset, EnvReset, EnvSetInitialTick] \<and>
   fst (worker_turn CmdReset (stub_worker (\<lambda>rd cf. Inr one_agent_env) (flaky_env 3 (SimError 7))))
     = None \<and>
   running (snd (worker_turn CmdReset
       (stub_worker (\<lambda>rd cf. Inr one_agent_env) (flaky_env 3 (SimError 7))))) = False \<and>
   printed (snd (worker_turn CmdReset
       (stub_worker (\<lambda>rd cf. Inr one_agent_env) (flaky_env 3 (SimError 7)))))
     = [ErrorInWorker (SimError 7)] \<and>
   calls (w_env (snd (worker_turn CmdReset
       (stub_worker (\<lambda>rd cf. Inr one_agent_env) (flaky_env 3 (SimError 7))))))
     = [EnvReset, EnvReset, EnvReset]"
proof -
  let ?W = "\<lambda>n. stub_worker (\<lambda>rd cf. Inr one_agent_env) (flaky_env n (SimError 7))"
  have env: "w_env (?W n) = flaky_env n (SimError 7)" "w_debug (?W n) = False"
    "printed (?W n) = []" for n
    by (simp_all add: stub_worker_def)
  have beh: "on_reset (flaky_env n x) h = (if length h < n then Inl x else Inr [(0, 0)])"
    "calls (flaky_env n x) = []" "has_truncation_cond (flaky_env n x) = True" for n x h
    by (simp_all add: flaky_env_def)
  have 0: "on_reset (w_env (?W 0)) (calls (w_env (?W 0))) = Inr [(0, 0)]"
    by (simp add: env beh)
  have 1: "on_reset (w_env (?W 1)) (calls (w_env (?W 1))) = Inl (SimError 7) \<and>
           on_reset (w_env (?W 1)) (calls (w_env (?W 1)) @ [EnvReset]) = Inr [(0, 0)]"
    by (simp add: env beh)
  have 2: "on_reset (w_env (?W 2)) (calls (w_env (?W 2))) = Inl (SimError 7) \<and>
           on_reset (w_env (?W 2)) (calls (w_env (?W 2)) @ [EnvReset]) = Inl (SimError 7) \<and>
           on_reset (w_env (?W 2)) (calls (w_env (?W 2)) @ [EnvReset, EnvReset]) = Inr [(0, 0)]"
    by (simp add: env beh)
  have 3: "on_reset (w_env (?W 3)) (calls (w_env (?W 3))) = Inl (SimError 7) \<and>
           on_reset (w_env (?W 3)) (calls (w_env (?W 3)) @ [EnvReset]) = Inl (SimError 7) \<and>
           on_reset (w_env (?W 3)) (calls (w_env (?W 3)) @ [EnvReset, EnvReset]) = Inl (SimError 7)"
    by (simp add: env beh)
  note t = worker_reset_retries [where ?x1.0 = "SimError 7" and ?x2.0 = "SimError 7"
      and ?x3.0 = "SimError 7" and obs = "[(0, 0)]"]
  from t [where w = "?W 0"] 0 t [where w = "?W 1"] 1 t [where w = "?W 2"] 2 t [where w = "?W 3"] 3
  show ?thesis
    by (simp add: env beh)
qed

text \<open>
  Claim C8 as stated says that the error is logged when all three attempts fail. A worker
  without debug output whose simulation raises \<open>EOFError\<close> at every \<^verbatim>\<open>reset\<close>: three
  attempts, no reply, the loop is left, and nothing was printed.
\<close>

theorem worker_reset_eof_not_logged:
  "fst (worker_turn CmdReset (stub_worker (\<lambda>rd cf. Inr one_agent_env) (failing_env EOFError))) = None \<and>
   calls (w_env (snd (worker_turn CmdReset (stub_worker (\<lambda>rd cf. Inr one_agent_env) (failing_env EOFError)))))
     = [EnvReset, EnvReset, EnvReset] \<and>
   running (snd (worker_turn CmdReset (stub_worker (\<lambda>rd cf. Inr one_agent_env) (failing_env EOFError)))) = False \<and>
   printed (snd (worker_turn CmdReset (stub_worker (\<lambda>rd cf. Inr one_agent_env) (failing_env EOFError)))) = []"
  by code_simp

section \<open>Slot isolation\<close>

lemma keepsI: "(\<And>s. R s (snd (m s))) \<Longrightarrow> keeps R m"
  by (simp add: keeps_def)

lemma keepsD: "keeps R m \<Longrightarrow> R s (snd (m s))"
  by (simp add: keeps_def)

lemma keeps_ret: "preorder_on_states R \<Longrightarrow> keeps R (ret x)"
  by (simp add: keeps_def ret_def preorder_on_states_def)

lemma keeps_raise: "preorder_on_states R \<Longrightarrow> keeps R (raise e)"
  by (simp add: keeps_def raise_def preorder_on_states_def)

lemma keeps_pure: "preorder_on_states R \<Longrightarrow> keeps R (\<lambda>s. (v, s))"
  by (simp add: keeps_def preorder_on_states_def)

lemma keeps_bnd:
  assumes R: "preorder_on_states R" and m: "keeps R m" and f: "\<And>x. keeps R (f x)"
  shows "keeps R (bnd m f)"
proof (rule keepsI)
  fix s
  obtain r s1 where ms: "m s = (r, s1)" by (cases "m s")
  have 1: "R s s1" using keepsD [OF m, of s] ms by simp
  show "R s (snd (bnd m f s))"
  proof (cases r)
    case (Return x)
    have "R s1 (snd (f x s1))" using keepsD [OF f] .
    with 1 R have "R s (snd (f x s1))" unfolding preorder_on_states_def by blast
    with Return ms show ?thesis by (simp add: bnd_def)
  next
    case (Raise e)
    with ms 1 show ?thesis by (simp add: bnd_def)
  next
    case Blocked
    with ms 1 show ?thesis by (simp add: bnd_def)
  qed
qed

lemma keeps_catch:
  assumes R: "preorder_on_states R" and m: "keeps R m" and f: "\<And>e. keeps R (h e)"
  shows "keeps R (catch m h)"
proof (rule keepsI)
  fix s
  obtain r s1 where ms: "m s = (r, s1)" by (cases "m s")
  have 1: "R s s1" using keepsD [OF m, of s] ms by simp
  show "R s (snd (catch m h s))"
  proof (cases r)
    case (Return x)
    with ms 1 show ?thesis by (simp add: catch_def)
  next
    case (Raise e)
    have "R s1 (snd (h e s1))" using keepsD [OF f] .
    with 1 R have "R s (snd (h e s1))" unfolding preorder_on_states_def by blast
    with Raise ms show ?thesis by (simp add: catch_def)
  next
    case Blocked
    with ms 1 show ?thesis by (simp add: catch_def)
  qed
qed

lemma keeps_for_each:
  assumes R: "preorder_on_states R" and b: "\<And>x. keeps R (body x)"
  shows "keeps R (for_each xs body)"
  by (induction xs) (simp_all add: keeps_ret [OF R] keeps_bnd [OF R] b)

lemma keeps_if: "keeps R m \<Longrightarrow> keeps R n \<Longrightarrow> keeps R (if b then m else n)"
  by simp

lemma keeps_state_if:
  "keeps R m \<Longrightarrow> keeps R n \<Longrightarrow> keeps R (\<lambda>s. if b s then m s else n s)"
  by (simp add: keeps_def)

lemma slot_frame_preorder: "preorder_on_states (slot_frame j)"
  by (simp add: preorder_on_states_def slot_frame_def)

lemma keeps_with_remote: "keeps (slot_frame j) (with_remote i f)"
  by (simp add: keeps_def with_remote_def slot_frame_def split: option.splits prod.splits)

lemma keeps_read_at: "preorder_on_states R \<Longrightarrow> keeps R (read_at field i)"
  by (simp add: keeps_def read_at_def preorder_on_states_def)

lemma frame_assign_obs: "i \<noteq> j \<Longrightarrow> keeps (slot_frame j) (assign_at obs_dicts obs_dicts_update i v)"
  by (simp add: keeps_def assign_at_def slot_frame_def)

lemma frame_assign_rewards:
  "i \<noteq> j \<Longrightarrow> keeps (slot_frame j) (assign_at episode_rewards episode_rewards_update i v)"
  by (simp add: keeps_def assign_at_def slot_frame_def)

lemma frame_assign_dones: "i \<noteq> j \<Longrightarrow> keeps (slot_frame j) (assign_at dones dones_update i v)"
  by (simp add: keeps_def assign_at_def slot_frame_def)

lemma frame_assign_successes:
  "keeps (slot_frame j) (assign_at episode_successes episode_successes_update i v)"
  by (simp add: keeps_def assign_at_def slot_frame_def)

lemma frame_assign_timeouts:
  "keeps (slot_frame j) (assign_at episode_timeouts episode_timeouts_update i v)"
  by (simp add: keeps_def assign_at_def slot_frame_def)

lemma frame_assign_counts:
  "keeps (slot_frame j) (assign_at episode_counts episode_counts_update i v)"
  by (simp add: keeps_def assign_at_def slot_frame_def)

lemma frame_assign_configs:
  "keeps (slot_frame j) (assign_at curriculum_configs curriculum_configs_update i v)"
  by (simp add: keeps_def assign_at_def slot_frame_def)

lemma frame_update_stats: "keeps (slot_frame j) (update_progression_stats m)"
  by (simp add: keeps_def update_progression_stats_def modify_def slot_frame_def)

lemma frame_get_config: "keeps (slot_frame j) get_environment_config"
  by (simp add: keeps_def get_environment_config_def slot_frame_def split: option.splits)

lemmas frame_basics =
  slot_frame_preorder keeps_ret [OF slot_frame_preorder] keeps_raise [OF slot_frame_preorder]
  keeps_pure [OF slot_frame_preorder] keeps_read_at [OF slot_frame_preorder]
  keeps_with_remote frame_assign_successes frame_assign_timeouts frame_assign_counts
  frame_assign_configs frame_update_stats frame_get_config

lemma frame_remote_send: "keeps (slot_frame j) (remote_send i c)"
  by (simp add: remote_send_def keeps_with_remote)

lemma frame_remote_recv: "keeps (slot_frame j) (remote_recv i)"
  by (simp add: remote_recv_def keeps_with_remote)

lemma frame_track_rewards: "i \<noteq> j \<Longrightarrow> keeps (slot_frame j) (track_rewards i rd)"
  unfolding track_rewards_def
  by (intro keeps_state_if keeps_bnd frame_basics frame_assign_rewards)

lemma frame_report_episode: "keeps (slot_frame j) (report_episode i)"
  unfolding report_episode_def
  by (intro keeps_state_if keeps_bnd frame_basics frame_remote_send frame_remote_recv)

lemma frame_reset_with_retry: "i \<noteq> j \<Longrightarrow> keeps (slot_frame j) (reset_with_retry as i required)"
proof (induction as)
  case Nil
  then show ?case by (simp add: frame_basics)
next
  case (Cons a as)
  have "keeps (slot_frame j)
          (case m of MsgObs obs \<Rightarrow>
              if IntVal (int (length obs)) = required
              then assign_at obs_dicts obs_dicts_update i obs
              else reset_with_retry as i required
           | _ \<Rightarrow> raise TypeError)" for m
    using Cons by (cases m) (simp_all add: frame_basics frame_assign_obs)
  then show ?case
    by (simp add: keeps_bnd [OF slot_frame_preorder] frame_remote_send frame_remote_recv)
qed

lemma frame_reset_action_stackers: "keeps (slot_frame j) (reset_action_stackers i obs)"
  unfolding reset_action_stackers_def
  by (intro keeps_state_if keeps_for_each keeps_bnd frame_basics frame_remote_send frame_remote_recv)

lemma frame_finish_episode:
  "i \<noteq> j \<Longrightarrow> keeps (slot_frame j) (finish_episode i required obs term trunc)"
  unfolding finish_episode_def
  by (intro keeps_bnd frame_basics frame_report_episode frame_reset_with_retry
      frame_reset_action_stackers frame_assign_rewards)

lemma frame_collect_slot: "i \<noteq> j \<Longrightarrow> keeps (slot_frame j) (collect_slot i)"
proof -
  assume ij: "i \<noteq> j"
  have "keeps (slot_frame j)
          (case m of
             MsgStep (next_obs_dict, reward_dict, terminated_dict, truncated_dict) \<Rightarrow>
               bnd (track_rewards i reward_dict)
                 (\<lambda>_. bnd (assign_at dones dones_update i
                        (py_any (py_values terminated_dict) \<or> py_any (py_values truncated_dict)))
                 (\<lambda>_. bnd (read_at curriculum_configs i)
                 (\<lambda>config. bnd (read_at dones i)
                 (\<lambda>d. bnd (if d
                           then finish_episode i (required_agents config next_obs_dict)
                                  next_obs_dict terminated_dict truncated_dict
                           else assign_at obs_dicts obs_dicts_update i next_obs_dict)
                 (\<lambda>_. ret (next_obs_dict, reward_dict, terminated_dict, truncated_dict))))))
           | _ \<Rightarrow> raise TypeError)" for m
  proof (cases m)
    case (MsgStep res)
    obtain a b c d where res: "res = (a, b, c, d)" by (cases res)
    show ?thesis unfolding MsgStep res
      by (simp, intro keeps_bnd keeps_if frame_basics frame_track_rewards [OF ij]
          frame_assign_dones [OF ij] frame_finish_episode [OF ij] frame_assign_obs [OF ij])
  qed (simp_all add: frame_basics)
  then show ?thesis
    unfolding collect_slot_def
    by (intro keeps_bnd frame_basics frame_remote_recv)
qed


lemma frame_on_slot_env: "keeps (slot_frame j) (on_slot_env i f)"
  by (simp add: keeps_def on_slot_env_def slot_frame_def split: option.splits prod.splits sum.splits)

lemma frame_track_rewards_thread: "i \<noteq> j \<Longrightarrow> keeps (slot_frame j) (track_rewards_thread i rd)"
  unfolding track_rewards_thread_def
  by (intro keeps_state_if keeps_bnd frame_basics frame_assign_rewards)

lemma frame_stacker: "keeps (slot_frame j) (modify (\<lambda>st. st\<lparr>action_stacker := g st\<rparr>))"
  by (simp add: keeps_def modify_def slot_frame_def)

lemma frame_step_env: "i \<noteq> j \<Longrightarrow> keeps (slot_frame j) (step_env (i, a))"
  unfolding step_env_def
  by (simp add: Let_def, intro keeps_bnd keeps_state_if frame_basics frame_stacker frame_on_slot_env
      frame_track_rewards_thread)

lemma frame_process_results:
  "i \<noteq> j \<Longrightarrow> keeps (slot_frame j) (process_results ((i, res) # rest) acc)"
proof -
  assume ij: "i \<noteq> j"
  obtain a b c d where res: "res = (a, b, c, d)" by (cases res)
  show ?thesis unfolding res
    by (simp, intro keeps_bnd frame_basics frame_assign_dones [OF ij])
qed

text \<open>
  Claim C5. Take two different slots \<open>i\<close> and \<open>j\<close>. Everything the Coordinator runs on
  behalf of slot \<open>i\<close> during a step leaves slot \<open>j\<close>'s retained observation mapping, reward
  accumulator and done flag as they were, whether it returns, raises or blocks: in process
  mode sending \<^verbatim>\<open>step\<close> to worker \<open>i\<close> (which steps the simulation) and the body of the
  collecting loop for \<open>i\<close> (auto-reset included); in thread mode the task \<^verbatim>\<open>_step_env\<close>
  of slot \<open>i\<close> and the treatment of its result. The tasks of thread mode write different
  cells of the three lists, so the order in which the pool runs them is of no account
  here.
\<close>

theorem slot_isolation:
  assumes "i \<noteq> j"
    and "st' \<in> {snd (remote_send i (CmdStep a) st), snd (collect_slot i st),
               snd (step_env (i, a) st), snd (process_results ((i, res) # rest) acc st)}"
  shows "obs_dicts st' ! j = obs_dicts st ! j \<and>
         episode_rewards st' ! j = episode_rewards st ! j \<and>
         dones st' ! j = dones st ! j"
proof -
  have "slot_frame j st st'"
    using assms(2)
      keepsD [OF frame_remote_send [of j i "CmdStep a"], of st]
      keepsD [OF frame_collect_slot [OF assms(1)], of st]
      keepsD [OF frame_step_env [OF assms(1), of a], of st]
      keepsD [OF frame_process_results [OF assms(1), of res rest acc], of st]
    by auto
  then show ?thesis by (simp add: slot_frame_def)
qed

text \<open>
  The theorem at slots 0 and 1 of a two-slot Coordinator: slot 0 is stepped and finishes
  its episode; slot 1 keeps its observations, its accumulated reward and its flag.
\<close>

theorem slot_isolation_witness:
  "(0::nat) \<noteq> 1 \<and>
   fst (collect_slot 0 (snd (remote_send 0 (CmdStep [(0, PyNum 1)]) two_slot_coordinator))) =
     Return ([(0, 1)], [(0, 1)], [(0, True)], [(0, False)]) \<and>
   dones (snd (collect_slot 0 (snd (remote_send 0 (CmdStep [(0, PyNum 1)]) two_slot_coordinator)))) ! 0 = True \<and>
   obs_dicts (snd (collect_slot 0 (snd (remote_send 0 (CmdStep [(0, PyNum 1)]) two_slot_coordinator)))) ! 1 = [(0, 7)] \<and>
   episode_rewards (snd (collect_slot 0 (snd (remote_send 0 (CmdStep [(0, PyNum 1)]) two_slot_coordinator)))) ! 1 = [(0, 3)] \<and>
   dones (snd (collect_slot 0 (snd (remote_send 0 (CmdStep [(0, PyNum 1)]) two_slot_coordinator)))) ! 1 = False"
proof -
  let ?s0 = "two_slot_coordinator"
  let ?s1 = "snd (remote_send 0 (CmdStep [(0, PyNum 1)]) ?s0)"
  let ?s2 = "snd (collect_slot 0 ?s1)"
  have ne: "(0::nat) \<noteq> 1" by simp
  have a: "obs_dicts ?s1 ! 1 = obs_dicts ?s0 ! 1 \<and> episode_rewards ?s1 ! 1 = episode_rewards ?s0 ! 1 \<and>
           dones ?s1 ! 1 = dones ?s0 ! 1"
    by (rule slot_isolation [OF ne, where a = "[(0, PyNum 1)]" and st = ?s0]) simp
  have b: "obs_dicts ?s2 ! 1 = obs_dicts ?s1 ! 1 \<and> episode_rewards ?s2 ! 1 = episode_rewards ?s1 ! 1 \<and>
           dones ?s2 ! 1 = dones ?s1 ! 1"
    by (rule slot_isolation [OF ne, where st = ?s1]) simp
  have c: "obs_dicts ?s0 ! 1 = [(0, 7)] \<and> episode_rewards ?s0 ! 1 = [(0, 3)] \<and> dones ?s0 ! 1 = False"
    by (simp add: two_slot_coordinator_def)
  have d: "fst (collect_slot 0 ?s1) = Return ([(0, 1)], [(0, 1)], [(0, True)], [(0, False)])"
    by code_simp
  have e: "dones ?s2 ! 0 = True"
    by code_simp
  from ne a b c d e show ?thesis by simp
qed

section \<open>\<^verbatim>\<open>force_env_reset\<close>\<close>

lemma force_env_reset_thread:
  assumes "mode st = ThreadMode" "envs st = Some es" "env_idx < length es"
    "env_idx < length (curriculum_configs st)" "env_idx < length (obs_dicts st)"
    "on_close (es ! env_idx) (calls (es ! env_idx)) = None"
    "get_env st (if env_idx = 0 \<and> render st then renderer (es ! env_idx) else None)
        (curriculum_configs st ! env_idx) = Inr new_env"
    "on_reset new_env (calls new_env) = Inr obs"
  shows "force_env_reset env_idx st =
      (Return (), st\<lparr>envs := Some (es[env_idx := new_env\<lparr>calls := calls new_env @ [EnvReset]\<rparr>]),
                    obs_dicts := (obs_dicts st)[env_idx := obs]\<rparr>)"
  using assms
  by (cases "env_idx = 0 \<and> render st")
     (auto simp add: force_env_reset_def the_envs_def bnd_def list_get_def on_slot_env_def ret_def
      env_close_def read_at_def env_reset_def assign_at_def Let_def split: option.splits)

text \<open>
  Claim C9. In process mode \<^verbatim>\<open>force_env_reset\<close> returns normally and leaves the whole
  state of the Coordinator as it was, the channels and the workers behind them included:
  nothing is sent. The recovery happens in thread mode: when the slot exists, its simulation
  closes without error, the factory builds a new one and that one resets, the slot holds
  the new simulation (built with the slot's configuration and, for the rendered slot 0,
  the old renderer) and the retained observations are those of its reset.
\<close>

theorem force_env_reset_thread_mode_only:
  "(mode st = MultiprocessMode \<longrightarrow> force_env_reset env_idx st = (Return (), st)) \<and>
   (mode st = ThreadMode \<and> envs st = Some es \<and> env_idx < length es \<and>
    env_idx < length (curriculum_configs st) \<and> env_idx < length (obs_dicts st) \<and>
    on_close (es ! env_idx) (calls (es ! env_idx)) = None \<and>
    get_env st (if env_idx = 0 \<and> render st then renderer (es ! env_idx) else None)
        (curriculum_configs st ! env_idx) = Inr new_env \<and>
    on_reset new_env (calls new_env) = Inr obs \<longrightarrow>
    force_env_reset env_idx st =
      (Return (), st\<lparr>envs := Some (es[env_idx := new_env\<lparr>calls := calls new_env @ [EnvReset]\<rparr>]),
                    obs_dicts := (obs_dicts st)[env_idx := obs]\<rparr>))"
  using force_env_reset_thread by (simp add: force_env_reset_def)

text \<open>
  The theorem at a process-mode Coordinator and at a thread-mode one with one slot each.
\<close>

theorem force_env_reset_thread_mode_only_witness:
  "force_env_reset 0 (process_coordinator None None [(0, 0)] (stub_remote (stub_worker (\<lambda>rd cf. Inr one_agent_env) one_agent_env)))
     = (Return (), process_coordinator None None [(0, 0)] (stub_remote (stub_worker (\<lambda>rd cf. Inr one_agent_env) one_agent_env))) \<and>
   force_env_reset 0 (thread_coordinator None None one_agent_env) =
     (Return (), (thread_coordinator None None one_agent_env)
        \<lparr>envs := Some [one_agent_env\<lparr>renderer := Some 0, calls := [EnvReset]\<rparr>], obs_dicts := [[(0, 0)]]\<rparr>)"
proof -
  let ?p = "process_coordinator None None [(0, 0)] (stub_remote (stub_worker (\<lambda>rd cf. Inr one_agent_env) one_agent_env))"
  let ?t = "thread_coordinator None None one_agent_env"
  have p: "mode ?p = MultiprocessMode" by (simp add: process_coordinator_def)
  have t: "mode ?t = ThreadMode \<and> envs ?t = Some [one_agent_env\<lparr>renderer := Some 0\<rparr>] \<and>
    0 < length [one_agent_env\<lparr>renderer := Some 0\<rparr>] \<and>
    0 < length (curriculum_configs ?t) \<and> 0 < length (obs_dicts ?t) \<and>
    on_close ([one_agent_env\<lparr>renderer := Some 0\<rparr>] ! 0) (calls ([one_agent_env\<lparr>renderer := Some 0\<rparr>] ! 0)) = None \<and>
    get_env ?t (if (0::nat) = 0 \<and> render ?t then renderer ([one_agent_env\<lparr>renderer := Some 0\<rparr>] ! 0) else None)
        (curriculum_configs ?t ! 0) = Inr (one_agent_env\<lparr>renderer := Some 0\<rparr>) \<and>
    on_reset (one_agent_env\<lparr>renderer := Some 0\<rparr>) (calls (one_agent_env\<lparr>renderer := Some 0\<rparr>)) = Inr [(0, 0)]"
    by (simp add: thread_coordinator_def one_agent_env_def stub_env_def)
  from force_env_reset_thread_mode_only [where st = ?p and env_idx = 0] p
  have 1: "force_env_reset 0 ?p = (Return (), ?p)" by blast
  from force_env_reset_thread_mode_only [where st = ?t and es = "[one_agent_env\<lparr>renderer := Some 0\<rparr>]" and env_idx = 0 and new_env = "one_agent_env\<lparr>renderer := Some 0\<rparr>" and obs = "[(0, 0)]"] t
  have 2: "force_env_reset 0 ?t =
      (Return (), ?t\<lparr>envs := Some ([one_agent_env\<lparr>renderer := Some 0\<rparr>][0 := (one_agent_env\<lparr>renderer := Some 0\<rparr>)\<lparr>calls := calls (one_agent_env\<lparr>renderer := Some 0\<rparr>) @ [EnvReset]\<rparr>]),
                    obs_dicts := (obs_dicts ?t)[0 := [(0, 0)]]\<rparr>)"
    by blast
  have 3: "?t\<lparr>envs := Some ([one_agent_env\<lparr>renderer := Some 0\<rparr>][0 := (one_agent_env\<lparr>renderer := Some 0\<rparr>)\<lparr>calls := calls (one_agent_env\<lparr>renderer := Some 0\<rparr>) @ [EnvReset]\<rparr>]),
                    obs_dicts := (obs_dicts ?t)[0 := [(0, 0)]]\<rparr> = ?t\<lparr>envs := Some [one_agent_env\<lparr>renderer := Some 0, calls := [EnvReset]\<rparr>], obs_dicts := [[(0, 0)]]\<rparr>"
    by (simp add: thread_coordinator_def one_agent_env_def stub_env_def)
  from 1 2 3 show ?thesis by simp
qed

section \<open>\<^verbatim>\<open>step\<close> in thread mode\<close>

lemma process_results_never_returns:
  "fst (process_results (x # xs) processed st) \<noteq> Return res"
proof -
  obtain env_idx a b c d where x: "x = (env_idx, a, b, c, d)" by (cases x)
  show ?thesis
    by (simp add: x bnd_def assign_at_def raise_def)
qed

lemma gather_Return_length: "gather outs = Return xs \<Longrightarrow> length xs = length outs"
proof (induction outs arbitrary: xs)
  case Nil
  then show ?case by simp
next
  case (Cons out outs)
  then show ?case
    by (cases out) (auto split: outcome.splits)
qed

lemma run_tasks_length: "run_tasks tasks st = (outs, st') \<Longrightarrow> length outs = length tasks"
  by (induction tasks arbitrary: st outs st') (auto split: prod.splits)

text \<open>
  In thread mode \<^verbatim>\<open>step\<close> returns only when no slot was given a non-empty action
  mapping, and the list it returns is then empty: as soon as one task is submitted, the
  call ends in an exception.
\<close>

lemma step_thread_returns_nothing:
  assumes "mode st = ThreadMode" and "step actions_dict_list st = (Return (res, d, c), st')"
  shows "res = [] \<and> (\<forall>es. envs st = Some es \<longrightarrow>
           filter (\<lambda>(i, a). a \<noteq> []) (zip [0..<length es] actions_dict_list) = [])"
proof -
  from assms obtain es where es: "envs st = Some es"
    by (auto simp: step_def step_thread_def the_envs_def bnd_def split: option.splits)
  let ?tasks = "filter (\<lambda>(i, a). a \<noteq> []) (zip [0..<length es] actions_dict_list)"
  have empty: "?tasks = []"
  proof (rule ccontr)
    assume ne: "?tasks \<noteq> []"
    from assms es ne obtain st1 where st1: "submit_check st = (Return (), st1)"
      by (auto simp: step_def step_thread_def the_envs_def bnd_def Let_def
          split: outcome.splits prod.splits)
    obtain outs st2 where rt: "run_tasks ?tasks st1 = (outs, st2)" by (cases "run_tasks ?tasks st1")
    from assms es ne st1 rt obtain results where g: "gather outs = Return results"
      and pr: "fst (process_results results [] st2) = Return res"
      by (auto simp: step_def step_thread_def the_envs_def bnd_def Let_def
          split: outcome.splits prod.splits)
    have "length results = length ?tasks"
      using gather_Return_length [OF g] run_tasks_length [OF rt] by simp
    with ne obtain x xs where "results = x # xs" by (cases results) auto
    with pr process_results_never_returns show False by blast
  qed
  from assms es empty have "res = []"
    by (auto simp: step_def step_thread_def the_envs_def bnd_def Let_def ret_def
        split: outcome.splits prod.splits)
  with es empty show ?thesis by simp
qed

text \<open>
  Claim C1. The claim: in both modes \<^verbatim>\<open>step\<close> returns one result tuple per slot and
  copies of the two vectors. The code in thread mode: a one-slot Coordinator is stepped
  with one action for agent 0. Whether the episode goes on (\<open>calm_env\<close>) or ends
  (\<open>one_agent_env\<close>), the simulation steps, line 361 stores the done flag, and line 364
  reads the unbound local \<^verbatim>\<open>i\<close>: the call raises \<open>UnboundLocalError\<close> and returns
  nothing.
\<close>

theorem step_thread_mode_raises:
  "fst (step [[(0, PyNum 1)]] (thread_coordinator None None calm_env)) = Raise UnboundLocalError \<and>
   dones (snd (step [[(0, PyNum 1)]] (thread_coordinator None None calm_env))) = [False] \<and>
   fst (step [[(0, PyNum 1)]] (thread_coordinator None None one_agent_env)) = Raise UnboundLocalError \<and>
   dones (snd (step [[(0, PyNum 1)]] (thread_coordinator None None one_agent_env))) = [True]"
  by code_simp

text \<open>
  Claim C4. The claim: for every slot that becomes done while a Curriculum Manager is
  present, metrics are reported with \<open>success\<close>, \<open>timeout\<close> and the mean episode reward.
  The code in thread mode, on a one-slot Coordinator with a Curriculum Manager whose agent
  terminates at the step: the reward is accumulated (lines 331-335) and the slot becomes
  done (line 361), then line 364 raises \<open>UnboundLocalError\<close>; line 387 is never reached and
  the manager has received no report.
\<close>

theorem step_thread_mode_reports_nothing:
  "fst (step [[(0, PyNum 1)]] (thread_coordinator (Some duel_manager) (Some duel_config) one_agent_env))
     = Raise UnboundLocalError \<and>
   dones (snd (step [[(0, PyNum 1)]]
     (thread_coordinator (Some duel_manager) (Some duel_config) one_agent_env))) = [True] \<and>
   episode_rewards (snd (step [[(0, PyNum 1)]]
     (thread_coordinator (Some duel_manager) (Some duel_config) one_agent_env))) = [[(0, 1)]] \<and>
   map_option reports (curriculum_manager (snd (step [[(0, PyNum 1)]]
     (thread_coordinator (Some duel_manager) (Some duel_config) one_agent_env)))) = Some []"
  by code_simp

section \<open>\<^verbatim>\<open>close\<close> and the collection of the first observations\<close>

text \<open>A Coordinator whose pool, simulations, channels and processes were never created.\<close>

lemma close_skips_missing_attributes:
  "executor st = None \<Longrightarrow> envs st = None \<Longrightarrow> remotes st = None \<Longrightarrow> processes st = None
     \<Longrightarrow> close st = (Return (), st)"
  by (simp add: close_def close_thread_def close_multiprocess_def bnd_def modify_def)

text \<open>
  Claim C6. The claim: \<^verbatim>\<open>close()\<close> twice in succession never raises, in either mode. The
  code in process mode, on a one-slot Coordinator with a live worker: the first call
  returns, having closed the channel (line 605); the second call sends \<^verbatim>\<open>close\<close> on the
  closed handle (line 592), which raises \<open>OSError\<close>, and the handler of line 593 catches only
  \<open>BrokenPipeError\<close> and \<open>EOFError\<close>: the second call raises \<open>OSError\<close>.
\<close>

theorem close_twice_raises_in_process_mode:
  "fst (close (plain_coordinator one_agent_env)) = Return () \<and>
   map handle_closed (the (remotes (snd (close (plain_coordinator one_agent_env))))) = [True] \<and>
   fst (close (snd (close (plain_coordinator one_agent_env)))) = Raise OSError"
  by code_simp

text \<open>
  The test of line 270 is the truth value of the tuple that \<^verbatim>\<open>select.select\<close> returns,
  not of its first list (as line 68 of the worker has it): the branch of lines 272-280 is
  never taken, whatever the channels do.
\<close>

lemma collect_initial_never_sends_close:
  "collect_initial True rs obs_dicts0 = (res, rs') \<Longrightarrow>
     map close_sent rs' = take (length rs') (map close_sent rs)"
proof (induction rs arbitrary: obs_dicts0 res rs')
  case Nil
  then show ?case by simp
next
  case (Cons r rs)
  from Cons.prems show ?case
    by (auto simp: py_bool_triple_def select_select_def recv_initial_def
        split: prod.splits outcome.splits arrival.splits if_splits dest: Cons.IH)
qed

text \<open>
  Claim C7. The claim: during construction the Coordinator waits at most 30 time units per
  channel; for a slot that does not answer in time it stores an empty mapping, sends
  \<^verbatim>\<open>close\<close> and goes on. The code, on one channel whose answer arrives after 100 units:
  \<^verbatim>\<open>select\<close> returns \<^verbatim>\<open>([], [], [])\<close> after 30 units, which is true, and \<^verbatim>\<open>recv\<close> waits
  for the answer: the Coordinator has waited 100 units, stores the answer and sends no
  \<^verbatim>\<open>close\<close>. On a channel whose answer never arrives, \<^verbatim>\<open>recv\<close> blocks and construction
  does not go on.
\<close>

theorem collect_initial_ignores_timeout:
  "collect_initial True [\<lparr>arrival = ArrivesAt 100 [(0, 0)], waited = 0, close_sent = False\<rparr>] []
     = (Return [[(0, 0)]], [\<lparr>arrival = ArrivesAt 100 [(0, 0)], waited = 100, close_sent = False\<rparr>]) \<and>
   collect_initial True [\<lparr>arrival = NeverArrives, waited = 0, close_sent = False\<rparr>] []
     = (Blocked, [\<lparr>arrival = NeverArrives, waited = 30, close_sent = False\<rparr>])"
  by code_simp

section \<open>\<^verbatim>\<open>step\<close> in process mode: the reset after an episode\<close>

text \<open>
  Claim C2. The claim: after a step in which slot \<open>i\<close> reported done, the retained
  mapping has as many agents as the slot's current configuration requires. The code in
  process mode computes \<^verbatim>\<open>required\<close> (lines 488-492) from the configuration the slot had
  before the step and replaces the configuration afterwards (line 518). On a one-slot
  Coordinator whose stored configuration requires one agent and whose Curriculum Manager
  hands out a configuration of two: when the rebuilt simulation shows two agents, all three
  resets are turned down against the stale count and the mapping of the finished episode
  stays (first three conjuncts); when the simulation shows one agent, the first reset is
  accepted (last four). Either way the step returns with a one-agent mapping under a
  configuration that requires two.
\<close>

theorem step_validates_against_stale_config:
  "fst (step [[(0, PyNum 1)]] (curriculum_coordinator two_agent_env)) =
     Return ([([(0, 1)], [(0, 1)], [(0, True)], [(0, False)])], [True], [1]) \<and>
   map (map_option (\<lambda>c. map_of c ''required_agents''))
     (curriculum_configs (snd (step [[(0, PyNum 1)]] (curriculum_coordinator two_agent_env)))) =
     [Some (Some (IntVal 2))] \<and>
   obs_dicts (snd (step [[(0, PyNum 1)]] (curriculum_coordinator two_agent_env))) = [[(0, 0)]] \<and>
   fst (step [[(0, PyNum 1)]] (curriculum_coordinator one_agent_env)) =
     Return ([([(0, 1)], [(0, 1)], [(0, True)], [(0, False)])], [True], [1]) \<and>
   map (map_option (\<lambda>c. map_of c ''required_agents''))
     (curriculum_configs (snd (step [[(0, PyNum 1)]] (curriculum_coordinator one_agent_env)))) =
     [Some (Some (IntVal 2))] \<and>
   obs_dicts (snd (step [[(0, PyNum 1)]] (curriculum_coordinator one_agent_env))) = [[(0, 0)]] \<and>
   map sent (the (remotes (snd (step [[(0, PyNum 1)]] (curriculum_coordinator one_agent_env))))) =
     [[CmdStep [(0, PyNum 1)],
       CmdSetCurriculum (duel_config @ [(''required_agents'', IntVal 2)]), CmdReset]]"
  by code_simp

section \<open>The reset loop of process mode\<close>

lemma calls_added_refl: "calls_added A w w"
  unfolding calls_added_def by (rule exI [of _ "[]"]) simp

lemma calls_added_trans:
  assumes "calls_added A w w1" "calls_added A w1 w2"
  shows "calls_added A w w2"
proof -
  from assms obtain cs ds where
    cs: "set cs \<subseteq> A" "w_env w1 = (w_env w)\<lparr>calls := calls (w_env w) @ cs\<rparr>" and
    ds: "set ds \<subseteq> A" "w_env w2 = (w_env w1)\<lparr>calls := calls (w_env w1) @ ds\<rparr>"
    unfolding calls_added_def by blast
  have "w_env w2 = (w_env w)\<lparr>calls := calls (w_env w) @ (cs @ ds)\<rparr>"
    using cs(2) ds(2) by simp
  moreover have "set (cs @ ds) \<subseteq> A" using cs(1) ds(1) by simp
  ultimately show ?thesis unfolding calls_added_def by blast
qed

lemma calls_added_one:
  "c \<in> A \<Longrightarrow> w_env w' = (w_env w)\<lparr>calls := calls (w_env w) @ [c]\<rparr> \<Longrightarrow> calls_added A w w'"
  unfolding calls_added_def by (rule exI [of _ "[c]"]) simp

lemma calls_added_same: "w_env w' = w_env w \<Longrightarrow> calls_added A w w'"
  unfolding calls_added_def by (rule exI [of _ "[]"]) simp

lemma reset_loop_calls:
  "reset_loop as w = (out, w') \<Longrightarrow> calls_added {EnvReset, EnvSetInitialTick} w w'"
proof (induction as arbitrary: w out w')
  case Nil
  then show ?case by (simp add: ret_def calls_added_refl)
next
  case (Cons a as)
  let ?w1 = "w\<lparr>w_env := (w_env w)\<lparr>calls := calls (w_env w) @ [EnvReset]\<rparr>\<rparr>"
  have 1: "calls_added {EnvReset, EnvSetInitialTick} w ?w1"
    by (rule calls_added_one [where c = EnvReset]) simp_all
  show ?case
  proof (cases "on_reset (w_env w) (calls (w_env w))")
    case (Inr obs)
    with Cons.prems have "w' = ?w1"
      by (simp add: catch_def bnd_def on_env_def env_reset_def ret_def)
    with 1 show ?thesis by simp
  next
    case (Inl x)
    let ?w2 = "if w_debug w then ?w1\<lparr>printed := printed w @ [DebugResetFailed (a + 1) x]\<rparr> else ?w1"
    have 2: "calls_added {EnvReset, EnvSetInitialTick} w ?w2"
      by (rule calls_added_one [where c = EnvReset]) simp_all
    show ?thesis
    proof (cases "a = 2")
      case True
      with Inl Cons.prems have "w' = ?w2"
        by (simp add: catch_def bnd_def on_env_def env_reset_def ret_def debug_print_def raise_def
            split: if_splits)
      with 2 show ?thesis by simp
    next
      case False
      with Inl Cons.prems have "reset_loop as ?w2 = (out, w')"
        by (simp add: catch_def bnd_def on_env_def env_reset_def ret_def debug_print_def raise_def
            split: if_splits)
      from Cons.IH [OF this] 2 show ?thesis by (rule calls_added_trans [rotated])
    qed
  qed
qed

lemma worker_turn_reset_calls:
  "worker_turn CmdReset w = (reply, w') \<Longrightarrow> calls_added {EnvReset, EnvSetInitialTick} w w'"
proof -
  assume a: "worker_turn CmdReset w = (reply, w')"
  obtain out w1 where rl: "reset_loop [0, 1, 2] w = (out, w1)" by (cases "reset_loop [0, 1, 2] w")
  have 1: "calls_added {EnvReset, EnvSetInitialTick} w w1" by (rule reset_loop_calls [OF rl])
  have "w_env w' = w_env w1 \<or> w_env w' = (w_env w1)\<lparr>calls := calls (w_env w1) @ [EnvSetInitialTick]\<rparr>"
    using a rl
    by (auto simp: worker_turn_def handle_reset_def bnd_def ret_def set_initial_tick_def modify_def
        split: outcome.splits option.splits if_splits)
  then have "calls_added {EnvReset, EnvSetInitialTick} w1 w'"
    by (auto intro: calls_added_same calls_added_one [where c = EnvSetInitialTick])
  with 1 show ?thesis by (rule calls_added_trans)
qed

lemma chan_send_reset:
  assumes "chan_send CmdReset r = (out, r')"
  shows "handle_closed r' = handle_closed r \<and>
         sent r' = sent r @ (if out = Return () then [CmdReset] else []) \<and>
         calls_added {EnvReset, EnvSetInitialTick} (peer r) (peer r')"
proof (cases "handle_closed r \<or> \<not> running (peer r)")
  case True
  with assms show ?thesis by (auto simp: chan_send_def calls_added_refl split: if_splits)
next
  case False
  obtain reply w' where wt: "worker_turn CmdReset (peer r) = (reply, w')"
    by (cases "worker_turn CmdReset (peer r)")
  from worker_turn_reset_calls [OF wt] False assms wt show ?thesis
    by (auto simp: chan_send_def)
qed

lemma chan_recv_keeps:
  "chan_recv r = (out, r') \<Longrightarrow>
     handle_closed r' = handle_closed r \<and> sent r' = sent r \<and> peer r' = peer r"
  by (auto simp: chan_recv_def split: if_splits list.splits)


lemma resets_only_0: "resets_only 0 r r"
  by (simp add: resets_only_def calls_added_refl)

lemma resets_only_Suc:
  "resets_only 1 r r1 \<Longrightarrow> resets_only k r1 r2 \<Longrightarrow> resets_only (Suc k) r r2"
  by (auto simp: resets_only_def replicate_append_same intro: calls_added_trans)

lemma send_recv_reset:
  assumes s: "chan_send CmdReset r = (Return (), r1)" and c: "chan_recv r1 = (out, r2)"
  shows "resets_only 1 r r2"
  using chan_send_reset [OF s] chan_recv_keeps [OF c] by (simp add: resets_only_def)

lemma send_reset_failed:
  assumes s: "chan_send CmdReset r = (out, r1)" and "out \<noteq> Return ()"
  shows "resets_only 0 r r1"
  using chan_send_reset [OF s] assms(2) by (simp add: resets_only_def)

lemma assign_obs_dicts:
  "i < length (obs_dicts s) \<Longrightarrow>
     assign_at obs_dicts obs_dicts_update i v s = (Return (), s\<lparr>obs_dicts := (obs_dicts s)[i := v]\<rparr>)"
  by (cases s) (simp add: assign_at_def)

lemma reset_with_retry_general:
  assumes "remotes st = Some rs" "i < length rs" "reset_with_retry as i required st = (out, st')"
  shows "\<exists>k ch. k \<le> length as \<and> resets_only k (rs ! i) ch \<and>
           st' = st\<lparr>remotes := Some (rs[i := ch]), obs_dicts := obs_dicts st'\<rparr> \<and>
           ((\<exists>obs. out = Return () \<and> IntVal (int (length obs)) = required \<and>
                   obs_dicts st' = (obs_dicts st)[i := obs]) \<or>
            (obs_dicts st' = obs_dicts st \<and> (out = Return () \<longrightarrow> k = length as)))"
  using assms
proof (induction as arbitrary: st rs out st')
  case Nil
  then have "out = Return ()" "st' = st" by (simp_all add: ret_def)
  moreover have "st = st\<lparr>remotes := Some (rs[i := rs ! i]), obs_dicts := obs_dicts st\<rparr>"
    using Nil.prems(1) by simp
  ultimately show ?case
    using resets_only_0 [of "rs ! i"] by (intro exI [of _ 0] exI [of _ "rs ! i"]) simp
next
  case (Cons a as)
  obtain o1 ch1 where s: "chan_send CmdReset (rs ! i) = (o1, ch1)"
    by (cases "chan_send CmdReset (rs ! i)")
  let ?st1 = "st\<lparr>remotes := Some (rs[i := ch1])\<rparr>"
  have send: "remote_send i CmdReset st = (o1, ?st1)"
    using Cons.prems(1,2) s by (simp add: remote_send_def with_remote_def)
  show ?case
  proof (cases "o1 = Return ()")
    case False
    with Cons.prems(3) send have "out = o1" "st' = ?st1"
      by (cases o1; simp add: bnd_def)+
    with False send_reset_failed [OF s False] show ?thesis
      by (intro exI [of _ 0] exI [of _ ch1]) simp
  next
    case True
    obtain o2 ch2 where c: "chan_recv ch1 = (o2, ch2)" by (cases "chan_recv ch1")
    let ?st2 = "st\<lparr>remotes := Some (rs[i := ch2])\<rparr>"
    have recv: "remote_recv i ?st1 = (o2, ?st2)"
      using Cons.prems(2) c by (simp add: remote_recv_def with_remote_def)
    have one: "resets_only 1 (rs ! i) ch2"
      using send_recv_reset s c True by simp
    have rest: "(case o2 of
                   Return m \<Rightarrow>
                     (case m of
                        MsgObs obs \<Rightarrow>
                          if IntVal (int (length obs)) = required
                          then assign_at obs_dicts obs_dicts_update i obs
                          else reset_with_retry as i required
                      | _ \<Rightarrow> raise TypeError) ?st2
                 | Raise e \<Rightarrow> (Raise e, ?st2)
                 | Blocked \<Rightarrow> (Blocked, ?st2)) = (out, st')"
      using Cons.prems(3) send recv True by (simp add: bnd_def split: outcome.splits)
    have stop: ?thesis if "st' = ?st2" "out \<noteq> Return ()"
      using that one by (intro exI [of _ 1] exI [of _ ch2]) simp
    show ?thesis
    proof (cases o2)
      case (Raise e)
      with rest show ?thesis by (intro stop) auto
    next
      case Blocked
      with rest show ?thesis by (intro stop) auto
    next
      case (Return m)
      show ?thesis
      proof (cases m)
        case (MsgObs obs)
        show ?thesis
        proof (cases "IntVal (int (length obs)) = required")
          case True
          show ?thesis
          proof (cases "i < length (obs_dicts st)")
            case True
            with Return MsgObs \<open>IntVal (int (length obs)) = required\<close> rest
            have "out = Return ()" "st' = ?st2\<lparr>obs_dicts := (obs_dicts st)[i := obs]\<rparr>"
              by (simp_all add: assign_obs_dicts)
            with one \<open>IntVal (int (length obs)) = required\<close> show ?thesis
              by (intro exI [of _ 1] exI [of _ ch2]) auto
          next
            case False
            with Return MsgObs \<open>IntVal (int (length obs)) = required\<close> rest
            show ?thesis by (intro stop) (auto simp: assign_at_def)
          qed
        next
          case False
          with Return MsgObs rest have r: "reset_with_retry as i required ?st2 = (out, st')"
            by simp
          have "remotes ?st2 = Some (rs[i := ch2])" "i < length (rs[i := ch2])"
            using Cons.prems(2) by simp_all
          from Cons.IH [OF this r] obtain k ch where
            k: "k \<le> length as" and ro: "resets_only k ((rs[i := ch2]) ! i) ch" and
            st': "st' = ?st2\<lparr>remotes := Some (rs[i := ch2, i := ch]), obs_dicts := obs_dicts st'\<rparr>" and
            obs: "(\<exists>obs. out = Return () \<and> IntVal (int (length obs)) = required \<and>
                     obs_dicts st' = (obs_dicts ?st2)[i := obs]) \<or>
                  (obs_dicts st' = obs_dicts ?st2 \<and> (out = Return () \<longrightarrow> k = length as))"
            by blast
          have ro': "resets_only (Suc k) (rs ! i) ch"
            using one ro Cons.prems(2) by (auto intro: resets_only_Suc)
          have st'': "st' = st\<lparr>remotes := Some (rs[i := ch]), obs_dicts := obs_dicts st'\<rparr>"
            using st' by simp
          from k ro' st'' obs show ?thesis
            by (intro exI [of _ "Suc k"] exI [of _ ch]) auto
        qed
      next
        case (MsgStep x)
        with Return rest show ?thesis by (intro stop) (auto simp: raise_def)
      next
        case MsgAck
        with Return rest show ?thesis by (intro stop) (auto simp: raise_def)
      qed
    qed
  qed
qed


text \<open>
  One round of the loop, in terms of \<open>reset_exchange\<close>: a reply with the required number
  of agents is stored, any other observation mapping leads to the next round, and an
  exchange that gave no reply ends the loop there.
\<close>

lemma one_exchange:
  assumes "remotes st = Some rs" "i < length rs" "reset_exchange (rs ! i) = (r, c)"
  shows "bnd (remote_send i CmdReset) (\<lambda>_. bnd (remote_recv i) f) st =
           (case r of
              Return m \<Rightarrow> f m (st\<lparr>remotes := Some (rs[i := c])\<rparr>)
            | Raise e \<Rightarrow> (Raise e, st\<lparr>remotes := Some (rs[i := c])\<rparr>)
            | Blocked \<Rightarrow> (Blocked, st\<lparr>remotes := Some (rs[i := c])\<rparr>))"
  using assms
  by (auto simp: reset_exchange_def bnd_def remote_send_def remote_recv_def with_remote_def
      split: prod.splits outcome.splits)

lemma reset_exchange_sent:
  assumes "reset_exchange r = (Return m, c)"
  shows "sent c = sent r @ [CmdReset]"
proof -
  obtain o1 r1 where s: "chan_send CmdReset r = (o1, r1)" by (cases "chan_send CmdReset r")
  with assms have o1: "o1 = Return ()" and c: "chan_recv r1 = (Return m, c)"
    by (auto simp: reset_exchange_def split: outcome.splits)
  from chan_send_reset [OF s] chan_recv_keeps [OF c] o1 show ?thesis by simp
qed

lemma retry_step:
  assumes "remotes st = Some rs" "i < length rs" "reset_exchange (rs ! i) = (r, c)"
  shows "reset_with_retry (a # as) i required st =
           (case r of
              Return m \<Rightarrow>
                (case m of
                   MsgObs obs \<Rightarrow>
                     if IntVal (int (length obs)) = required
                     then assign_at obs_dicts obs_dicts_update i obs (st\<lparr>remotes := Some (rs[i := c])\<rparr>)
                     else reset_with_retry as i required (st\<lparr>remotes := Some (rs[i := c])\<rparr>)
                 | _ \<Rightarrow> (Raise TypeError, st\<lparr>remotes := Some (rs[i := c])\<rparr>))
            | Raise e \<Rightarrow> (Raise e, st\<lparr>remotes := Some (rs[i := c])\<rparr>)
            | Blocked \<Rightarrow> (Blocked, st\<lparr>remotes := Some (rs[i := c])\<rparr>))"
  by (simp add: one_exchange [OF assms] raise_def split: outcome.splits msg.splits)

text \<open>
  Claim C3, as amended, for process mode. The loop of lines 526-535 runs on slot \<open>i\<close>
  after it became done; \<open>(r1, c1)\<close>, \<open>(r2, c2)\<close> and \<open>(r3, c3)\<close> are what three successive
  exchanges (send \<^verbatim>\<open>reset\<close>, receive) on the slot's channel give: the reply or the
  failure, and the channel afterwards. Round by round:
  \<^item> a reply with the required number of agents is stored as the slot's retained
    observations and ends the loop, which returns; one, two or three resets were sent;
  \<^item> a send or receive that raises (or a receive that blocks) ends the loop with that
    outcome, the retained observations as they were: the Coordinator does not retry it;
  \<^item> a reply with another number of agents leads to the next round, and after three of
    them the loop returns with the retained observations as they were.

  In every case (last conjunct) the Coordinator sent \<^verbatim>\<open>reset\<close> at most three times on
  that channel and nothing else, nothing of the Coordinator changed but that channel and
  the retained observations, and the worker's simulation object is the same object, on
  which only \<^verbatim>\<open>reset\<close> (and the tick update after it) was called: it is neither
  destroyed nor rebuilt.
\<close>

theorem reset_with_retry_process_mode:
  assumes rs: "remotes st = Some rs" and i: "i < length rs"
    and run: "reset_with_retry [0, 1, 2] i required st = (out, st')"
    and x1: "reset_exchange (rs ! i) = (r1, c1)"
    and x2: "reset_exchange c1 = (r2, c2)"
    and x3: "reset_exchange c2 = (r3, c3)"
  shows
    "((r1 = Return (MsgObs obs) \<and> IntVal (int (length obs)) = required \<and> i < length (obs_dicts st) \<longrightarrow>
        out = Return () \<and> sent c1 = sent (rs ! i) @ [CmdReset] \<and>
        st' = st\<lparr>remotes := Some (rs[i := c1]), obs_dicts := (obs_dicts st)[i := obs]\<rparr>) \<and>
      (r1 = Raise e \<longrightarrow> out = Raise e \<and> st' = st\<lparr>remotes := Some (rs[i := c1])\<rparr>) \<and>
      (r1 = Blocked \<longrightarrow> out = Blocked \<and> st' = st\<lparr>remotes := Some (rs[i := c1])\<rparr>) \<and>
      (r1 = Return (MsgObs o1) \<and> IntVal (int (length o1)) \<noteq> required \<longrightarrow>
        (r2 = Return (MsgObs obs) \<and> IntVal (int (length obs)) = required \<and> i < length (obs_dicts st) \<longrightarrow>
           out = Return () \<and> sent c2 = sent (rs ! i) @ [CmdReset, CmdReset] \<and>
           st' = st\<lparr>remotes := Some (rs[i := c2]), obs_dicts := (obs_dicts st)[i := obs]\<rparr>) \<and>
        (r2 = Raise e \<longrightarrow> out = Raise e \<and> st' = st\<lparr>remotes := Some (rs[i := c2])\<rparr>) \<and>
        (r2 = Blocked \<longrightarrow> out = Blocked \<and> st' = st\<lparr>remotes := Some (rs[i := c2])\<rparr>) \<and>
        (r2 = Return (MsgObs o2) \<and> IntVal (int (length o2)) \<noteq> required \<longrightarrow>
           (r3 = Return (MsgObs obs) \<and> IntVal (int (length obs)) = required \<and> i < length (obs_dicts st) \<longrightarrow>
              out = Return () \<and> sent c3 = sent (rs ! i) @ [CmdReset, CmdReset, CmdReset] \<and>
              st' = st\<lparr>remotes := Some (rs[i := c3]), obs_dicts := (obs_dicts st)[i := obs]\<rparr>) \<and>
           (r3 = Raise e \<longrightarrow> out = Raise e \<and> st' = st\<lparr>remotes := Some (rs[i := c3])\<rparr>) \<and>
           (r3 = Blocked \<longrightarrow> out = Blocked \<and> st' = st\<lparr>remotes := Some (rs[i := c3])\<rparr>) \<and>
           (r3 = Return (MsgObs o3) \<and> IntVal (int (length o3)) \<noteq> required \<longrightarrow>
              out = Return () \<and> sent c3 = sent (rs ! i) @ [CmdReset, CmdReset, CmdReset] \<and>
              st' = st\<lparr>remotes := Some (rs[i := c3])\<rparr>)))) \<and>
     (\<exists>k cs ch. k \<le> 3 \<and>
           st' = st\<lparr>remotes := Some (rs[i := ch]), obs_dicts := obs_dicts st'\<rparr> \<and>
           handle_closed ch = handle_closed (rs ! i) \<and>
           sent ch = sent (rs ! i) @ replicate k CmdReset \<and>
           set cs \<subseteq> {EnvReset, EnvSetInitialTick} \<and>
           w_env (peer ch) = (w_env (peer (rs ! i)))\<lparr>calls := calls (w_env (peer (rs ! i))) @ cs\<rparr> \<and>
           ((\<exists>obs. out = Return () \<and> IntVal (int (length obs)) = required \<and>
                   obs_dicts st' = (obs_dicts st)[i := obs]) \<or>
            (obs_dicts st' = obs_dicts st \<and> (out = Return () \<longrightarrow> k = 3))))"
  (is "?rounds \<and> ?frame")
proof
  let ?s1 = "st\<lparr>remotes := Some (rs[i := c1])\<rparr>"
  let ?s2 = "st\<lparr>remotes := Some (rs[i := c2])\<rparr>"
  let ?s3 = "st\<lparr>remotes := Some (rs[i := c3])\<rparr>"
  have e1: "remotes ?s1 = Some (rs[i := c1])" "i < length (rs[i := c1])"
    "reset_exchange ((rs[i := c1]) ! i) = (r2, c2)"
    "?s1\<lparr>remotes := Some (rs[i := c1, i := c2])\<rparr> = ?s2"
    using i x2 by simp_all
  have e2: "remotes ?s2 = Some (rs[i := c2])" "i < length (rs[i := c2])"
    "reset_exchange ((rs[i := c2]) ! i) = (r3, c3)"
    "?s2\<lparr>remotes := Some (rs[i := c2, i := c3])\<rparr> = ?s3"
    using i x3 by simp_all
  note round1 = retry_step [OF rs i x1, of 0 "[1, 2]" required]
  note round2 = retry_step [OF e1(1,2,3), of 1 "[2]" required, unfolded e1(4)]
  note round3 = retry_step [OF e2(1,2,3), of 2 "[]" required, unfolded e2(4)]
  note rounds = run [unfolded round1 round2 round3 reset_with_retry.simps(1)]
  have snt: "\<And>m. r1 = Return m \<Longrightarrow> sent c1 = sent (rs ! i) @ [CmdReset]"
    "\<And>m. r2 = Return m \<Longrightarrow> sent c2 = sent c1 @ [CmdReset]"
    "\<And>m. r3 = Return m \<Longrightarrow> sent c3 = sent c2 @ [CmdReset]"
    using x1 x2 x3 by (auto dest: reset_exchange_sent)
  show ?rounds
    using rounds snt
    by (auto simp: assign_obs_dicts ret_def simp del: reset_with_retry.simps)
next
  from reset_with_retry_general [OF rs i run] obtain k ch where
    k: "k \<le> length [0::nat, 1, 2]" and ro: "resets_only k (rs ! i) ch" and
    st': "st' = st\<lparr>remotes := Some (rs[i := ch]), obs_dicts := obs_dicts st'\<rparr>" and
    obs: "(\<exists>obs. out = Return () \<and> IntVal (int (length obs)) = required \<and>
                   obs_dicts st' = (obs_dicts st)[i := obs]) \<or>
            (obs_dicts st' = obs_dicts st \<and> (out = Return () \<longrightarrow> k = length [0::nat, 1, 2]))"
    by blast
  from ro obtain cs where cs: "set cs \<subseteq> {EnvReset, EnvSetInitialTick}"
    "w_env (peer ch) = (w_env (peer (rs ! i)))\<lparr>calls := calls (w_env (peer (rs ! i))) @ cs\<rparr>"
    "handle_closed ch = handle_closed (rs ! i)" "sent ch = sent (rs ! i) @ replicate k CmdReset"
    unfolding resets_only_def calls_added_def by blast
  have k3: "k \<le> 3" using k by simp
  have obs3: "(\<exists>obs. out = Return () \<and> IntVal (int (length obs)) = required \<and>
                   obs_dicts st' = (obs_dicts st)[i := obs]) \<or>
            (obs_dicts st' = obs_dicts st \<and> (out = Return () \<longrightarrow> k = 3))"
    using obs by (auto simp: numeral_3_eq_3)
  from k3 st' cs obs3 show ?frame by blast
qed

text \<open>
  The theorem on one-slot Coordinators that require one agent. A simulation that shows one
  agent at once: its first reply is stored after one reset. One that shows two agents
  first: the second reply is stored after two resets. One that shows two agents three
  times: the loop returns after three resets with the old observations. One whose
  \<^verbatim>\<open>reset\<close> always raises: the worker gives up, and the Coordinator's \<^verbatim>\<open>recv\<close> ends the
  loop with \<open>EOFError\<close>, the old observations kept.
\<close>

theorem reset_with_retry_process_mode_witness:
  "reset_with_retry [0, 1, 2] 0 (IntVal 1) (plain_coordinator (settling_env 0)) =
     (Return (),
      (plain_coordinator (settling_env 0))
        \<lparr>remotes := Some [snd (reset_exchange (the (remotes (plain_coordinator (settling_env 0))) ! 0))],
         obs_dicts := [[(0, 5)]]\<rparr>) \<and>
   map sent (the (remotes (snd (reset_with_retry [0, 1, 2] 0 (IntVal 1)
     (plain_coordinator (settling_env 0)))))) = [[CmdReset]] \<and>
   fst (reset_with_retry [0, 1, 2] 0 (IntVal 1) (plain_coordinator (settling_env 1))) = Return () \<and>
   obs_dicts (snd (reset_with_retry [0, 1, 2] 0 (IntVal 1) (plain_coordinator (settling_env 1)))) =
     [[(0, 5)]] \<and>
   map sent (the (remotes (snd (reset_with_retry [0, 1, 2] 0 (IntVal 1)
     (plain_coordinator (settling_env 1)))))) = [[CmdReset, CmdReset]] \<and>
   fst (reset_with_retry [0, 1, 2] 0 (IntVal 1) (plain_coordinator (settling_env 3))) = Return () \<and>
   obs_dicts (snd (reset_with_retry [0, 1, 2] 0 (IntVal 1) (plain_coordinator (settling_env 3)))) =
     [[(0, 0)]] \<and>
   map sent (the (remotes (snd (reset_with_retry [0, 1, 2] 0 (IntVal 1)
     (plain_coordinator (settling_env 3)))))) = [[CmdReset, CmdReset, CmdReset]] \<and>
   fst (reset_with_retry [0, 1, 2] 0 (IntVal 1) (plain_coordinator broken_reset_env)) =
     Raise EOFError \<and>
   obs_dicts (snd (reset_with_retry [0, 1, 2] 0 (IntVal 1) (plain_coordinator broken_reset_env))) =
     [[(0, 0)]]"
proof -
  let ?two = "[(0, 0), (1, 0)] :: obs_dict"
  let ?R = "\<lambda>e. stub_remote (stub_worker (\<lambda>rd cf. Inr e) e)"
  let ?P = plain_coordinator
  let ?run = "\<lambda>e. reset_with_retry [0, 1, 2] 0 (IntVal 1) (?P e)"
  let ?x1 = "\<lambda>e. reset_exchange (?R e)"
  let ?x2 = "\<lambda>e. reset_exchange (snd (?x1 e))"
  let ?x3 = "\<lambda>e. reset_exchange (snd (?x2 e))"
  have P: "\<And>E. remotes (?P E) = Some [?R E]" "\<And>E. obs_dicts (?P E) = [[(0, 0)]]"
    by (simp_all add: plain_coordinator_def process_coordinator_def)
  have R: "\<And>E. sent (?R E) = []" by (simp add: stub_remote_def)
  have h: "\<And>E. (0::nat) < length [?R E]"
    "\<And>E. ?run E = (fst (?run E), snd (?run E))"
    "\<And>E. reset_exchange ([?R E] ! 0) = (fst (?x1 E), snd (?x1 E))"
    "\<And>E. reset_exchange (snd (?x1 E)) = (fst (?x2 E), snd (?x2 E))"
    "\<And>E. reset_exchange (snd (?x2 E)) = (fst (?x3 E), snd (?x3 E))"
    by simp_all
  {
    fix E
    note reset_with_retry_process_mode
      [where ?o1.0 = ?two and ?o2.0 = ?two and ?o3.0 = ?two and obs = "[(0, 5)]" and e = EOFError,
        OF P(1) [of E] h, THEN conjunct1]
  }
  note rounds = this
  have a: "fst (?x1 (settling_env 0)) = Return (MsgObs [(0, 5)])" by code_simp
  have b: "fst (?x1 (settling_env 1)) = Return (MsgObs ?two)"
    "fst (?x2 (settling_env 1)) = Return (MsgObs [(0, 5)])" by code_simp+
  have c: "fst (?x1 (settling_env 3)) = Return (MsgObs ?two)"
    "fst (?x2 (settling_env 3)) = Return (MsgObs ?two)"
    "fst (?x3 (settling_env 3)) = Return (MsgObs ?two)" by code_simp+
  have d: "fst (?x1 broken_reset_env) = Raise EOFError" by code_simp
  have 0: "fst (?run (settling_env 0)) = Return ()"
    "sent (snd (?x1 (settling_env 0))) = [CmdReset]"
    "snd (?run (settling_env 0)) =
       (?P (settling_env 0))\<lparr>remotes := Some [snd (?x1 (settling_env 0))], obs_dicts := [[(0, 5)]]\<rparr>"
    using rounds [of "settling_env 0"] a
    by (simp_all add: P R del: reset_with_retry.simps)
  have 1: "fst (?run (settling_env 1)) = Return ()"
    "sent (snd (?x2 (settling_env 1))) = [CmdReset, CmdReset]"
    "snd (?run (settling_env 1)) =
       (?P (settling_env 1))\<lparr>remotes := Some [snd (?x2 (settling_env 1))], obs_dicts := [[(0, 5)]]\<rparr>"
    using rounds [of "settling_env 1"] b
    by (simp_all add: P R del: reset_with_retry.simps)
  have 3: "fst (?run (settling_env 3)) = Return ()"
    "sent (snd (?x3 (settling_env 3))) = [CmdReset, CmdReset, CmdReset]"
    "snd (?run (settling_env 3)) =
       (?P (settling_env 3))\<lparr>remotes := Some [snd (?x3 (settling_env 3))]\<rparr>"
    using rounds [of "settling_env 3"] c
    by (simp_all add: P R del: reset_with_retry.simps)
  have 4: "fst (?run broken_reset_env) = Raise EOFError"
    "snd (?run broken_reset_env) =
       (?P broken_reset_env)\<lparr>remotes := Some [snd (?x1 broken_reset_env)]\<rparr>"
    using rounds [of broken_reset_env] d
    by (simp_all add: P R del: reset_with_retry.simps)
  have "?run (settling_env 0) = (fst (?run (settling_env 0)), snd (?run (settling_env 0)))"
    by simp
  with 0 have 00: "?run (settling_env 0) =
     (Return (), (?P (settling_env 0))\<lparr>remotes := Some [snd (?x1 (settling_env 0))],
        obs_dicts := [[(0, 5)]]\<rparr>)" by (simp del: reset_with_retry.simps)
  show ?thesis
    using 00 0 1 3 4 by (simp add: P del: reset_with_retry.simps)
qed

text \<open>
  Claim C3 as stated says that after three failed attempts the slot's simulation is
  destroyed, rebuilt and reset once more. Process mode, one slot, no Curriculum Manager.
  When every \<^verbatim>\<open>reset\<close> returns two agents where one is required, \<^verbatim>\<open>step\<close> returns
  after three resets: no fourth reset, the same simulation object, never closed, the
  retained observations still those from before the episode ended. When every \<^verbatim>\<open>reset\<close>
  raises, the worker gives up after three attempts and leaves its loop; the Coordinator's
  \<^verbatim>\<open>recv\<close> raises \<open>EOFError\<close> out of \<^verbatim>\<open>step\<close>, and nothing is rebuilt.
\<close>

theorem reset_exhaustion_without_rebuild:
  "fst (step [[(0, PyNum 1)]] (plain_coordinator mismatch_env)) =
     Return ([([(0, 1)], [(0, 1)], [(0, True)], [(0, False)])], [True], [1]) \<and>
   map sent (the (remotes (snd (step [[(0, PyNum 1)]] (plain_coordinator mismatch_env))))) =
     [[CmdStep [(0, PyNum 1)], CmdReset, CmdReset, CmdReset]] \<and>
   map (\<lambda>r. calls (w_env (peer r)))
     (the (remotes (snd (step [[(0, PyNum 1)]] (plain_coordinator mismatch_env))))) =
     [[EnvStep [(0, [1])], EnvReset, EnvReset, EnvReset]] \<and>
   obs_dicts (snd (step [[(0, PyNum 1)]] (plain_coordinator mismatch_env))) = [[(0, 0)]] \<and>
   fst (step [[(0, PyNum 1)]] (plain_coordinator broken_reset_env)) = Raise EOFError \<and>
   map sent (the (remotes (snd (step [[(0, PyNum 1)]] (plain_coordinator broken_reset_env))))) =
     [[CmdStep [(0, PyNum 1)], CmdReset]] \<and>
   map (\<lambda>r. calls (w_env (peer r)))
     (the (remotes (snd (step [[(0, PyNum 1)]] (plain_coordinator broken_reset_env))))) =
     [[EnvStep [(0, [1])], EnvReset, EnvReset, EnvReset]] \<and>
   map (\<lambda>r. running (peer r))
     (the (remotes (snd (step [[(0, PyNum 1)]] (plain_coordinator broken_reset_env))))) = [False]"
  by code_simp

section \<open>\<^verbatim>\<open>step\<close> in process mode: what is returned and what is reported\<close>

lemma bnd_Return:
  assumes "bnd m f s = (Return y, s')"
  obtains x s1 where "m s = (Return x, s1)" and "f x s1 = (Return y, s')"
  using assms by (auto simp: bnd_def split: prod.splits outcome.splits)

lemma collect_length:
  "collect idxs results st = (Return res, st') \<Longrightarrow> length res = length results + length idxs"
proof (induction idxs arbitrary: results st)
  case Nil
  then show ?case by (simp add: ret_def)
next
  case (Cons i idxs)
  from Cons.prems obtain r s1 where "collect idxs (results @ [r]) s1 = (Return res, st')"
    by (auto elim: bnd_Return)
  from Cons.IH [OF this] show ?case by simp
qed

text \<open>
  In process mode a \<^verbatim>\<open>step\<close> that returns gives one result tuple per channel and the
  two vectors as they are when it returns.
\<close>

lemma step_multiprocess_shape:
  assumes "step_multiprocess actions_dict_list st = (Return (res, d, c), st')"
    and "remotes st = Some rs"
  shows "length res = length rs \<and> d = dones st' \<and> c = episode_counts st'"
proof -
  from assms obtain s2 where
    "collect [0..<length rs] [] s2 = (Return res, st') \<and> d = dones st' \<and> c = episode_counts st'"
    unfolding step_multiprocess_def
    by (elim bnd_Return) (auto simp: the_remotes_def)
  with collect_length [of "[0..<length rs]" "[]" s2 res st'] show ?thesis by simp
qed

text \<open>
  The reward accumulator: every reward of a step is added once, an agent-id is added at
  most once.
\<close>

lemma sum_update_present:
  "distinct (map fst al) \<Longrightarrow> map_of al k = Some v0 \<Longrightarrow>
     sum_list (map snd (AList.update k v al)) = sum_list (map snd al) - v0 + (v::rat)"
proof (induction al)
  case Nil
  then show ?case by simp
next
  case (Cons p al)
  obtain a b where p: "p = (a, b)" by (cases p)
  show ?case
  proof (cases "a = k")
    case True
    with Cons.prems p show ?thesis by simp
  next
    case False
    with Cons p show ?thesis by simp
  qed
qed

lemma sum_update_absent:
  "map_of al k = None \<Longrightarrow>
     sum_list (map snd (AList.update k v al)) = sum_list (map snd al) + (v::rat)"
proof (induction al)
  case Nil
  then show ?case by simp
next
  case (Cons p al)
  obtain a b where p: "p = (a, b)" by (cases p)
  with Cons show ?case by (cases "a = k") (simp_all split: if_splits)
qed

lemma add_reward_keys:
  "map fst (add_reward er (a, r)) = (if a \<in> set (map fst er) then map fst er else map fst er @ [a])"
  by (auto simp: add_reward_def Let_def update_keys map_of_eq_None_iff dom_update)

lemma add_reward_distinct:
  "distinct (map fst er) \<Longrightarrow> distinct (map fst (add_reward er (a, r)))"
  by (simp add: add_reward_keys)

lemma add_reward_sum:
  assumes "distinct (map fst er)"
  shows "sum_list (map snd (add_reward er (a, r))) = sum_list (map snd er) + r"
proof (cases "map_of er a")
  case None
  let ?er0 = "AList.update a 0 er"
  have d0: "distinct (map fst ?er0)" using assms by (simp add: distinct_update)
  have m0: "map_of ?er0 a = Some 0" by (simp add: update_conv')
  have s0: "sum_list (map snd ?er0) = sum_list (map snd er)"
    using sum_update_absent [OF None, of 0] by simp
  have "add_reward er (a, r) = AList.update a (0 + r) ?er0"
    using None m0 by (simp add: add_reward_def Let_def)
  then show ?thesis
    using sum_update_present [OF d0 m0, of "0 + r"] s0 by simp
next
  case (Some v0)
  then have "add_reward er (a, r) = AList.update a (v0 + r) er"
    by (simp add: add_reward_def Let_def)
  then show ?thesis
    using sum_update_present [OF assms Some, of "v0 + r"] by simp
qed

lemma accumulate_distinct:
  "distinct (map fst er) \<Longrightarrow> distinct (map fst (accumulate er rd))"
  unfolding accumulate_def
proof (induction rd arbitrary: er)
  case Nil
  then show ?case by simp
next
  case (Cons p rd)
  obtain a r where p: "p = (a, r)" by (cases p)
  show ?case using Cons.IH [OF add_reward_distinct [OF Cons.prems, of a r]] p by simp
qed

lemma accumulate_sum:
  "distinct (map fst er) \<Longrightarrow>
     sum_list (py_values (accumulate er rd)) = sum_list (py_values er) + sum_list (py_values rd)"
  unfolding accumulate_def py_values_def
proof (induction rd arbitrary: er)
  case Nil
  then show ?case by simp
next
  case (Cons p rd)
  obtain a r where p: "p = (a, r)" by (cases p)
  show ?case
    using Cons.IH [OF add_reward_distinct [OF Cons.prems, of a r]]
      add_reward_sum [OF Cons.prems, of a r] p
    by simp
qed

lemma accumulate_keys:
  "set (py_keys (accumulate er rd)) = set (py_keys er) \<union> set (py_keys rd)"
  unfolding accumulate_def py_keys_def
proof (induction rd arbitrary: er)
  case Nil
  then show ?case by simp
next
  case (Cons p rd)
  obtain a r where p: "p = (a, r)" by (cases p)
  show ?case using Cons.IH [of "add_reward er (a, r)"] p
    by (auto simp: add_reward_keys split: if_splits)
qed

text \<open>The accumulator of an episode whose steps gave the reward mappings \<open>rds\<close>, in order.\<close>

lemma episode_accumulator:
  "distinct (py_keys (foldl accumulate [] rds)) \<and>
   sum_list (py_values (foldl accumulate [] rds)) = (\<Sum>rd\<leftarrow>rds. sum_list (py_values rd)) \<and>
   length (foldl accumulate [] rds) = card (\<Union>rd\<in>set rds. set (py_keys rd))"
proof -
  have gen: "distinct (py_keys er) \<Longrightarrow>
      distinct (py_keys (foldl accumulate er rds)) \<and>
      sum_list (py_values (foldl accumulate er rds)) =
        sum_list (py_values er) + (\<Sum>rd\<leftarrow>rds. sum_list (py_values rd)) \<and>
      set (py_keys (foldl accumulate er rds)) = set (py_keys er) \<union> (\<Union>rd\<in>set rds. set (py_keys rd))"
    for er
  proof (induction rds arbitrary: er)
    case Nil
    then show ?case by simp
  next
    case (Cons rd rds)
    have d: "distinct (py_keys (accumulate er rd))"
      using accumulate_distinct [of er rd] Cons.prems by (simp add: py_keys_def)
    have s: "sum_list (py_values (accumulate er rd)) = sum_list (py_values er) + sum_list (py_values rd)"
      using accumulate_sum [of er rd] Cons.prems by (simp add: py_keys_def)
    from Cons.IH [OF d] s accumulate_keys [of er rd] show ?case by auto
  qed
  have "distinct (py_keys ([] :: reward_dict))" by (simp add: py_keys_def)
  from gen [OF this] have
    d: "distinct (py_keys (foldl accumulate [] rds))" and
    s: "sum_list (py_values (foldl accumulate [] rds)) = (\<Sum>rd\<leftarrow>rds. sum_list (py_values rd))" and
    k: "set (py_keys (foldl accumulate [] rds)) = (\<Union>rd\<in>set rds. set (py_keys rd))"
    by (simp_all add: py_keys_def py_values_def)
  have "length (foldl accumulate [] rds) = length (py_keys (foldl accumulate [] rds))"
    by (simp add: py_keys_def)
  also have "\<dots> = card (set (py_keys (foldl accumulate [] rds)))"
    using d by (simp add: distinct_card)
  finally show ?thesis using d s k by simp
qed

lemma reports_kept_preorder: "preorder_on_states reports_kept"
  by (simp add: preorder_on_states_def reports_kept_def)

lemma rk_with_remote: "keeps reports_kept (with_remote i f)"
  by (simp add: keeps_def with_remote_def reports_kept_def split: option.splits prod.splits)

lemma rk_assign_obs: "keeps reports_kept (assign_at obs_dicts obs_dicts_update i v)"
  by (simp add: keeps_def assign_at_def reports_kept_def)

lemma rk_assign_rewards: "keeps reports_kept (assign_at episode_rewards episode_rewards_update i v)"
  by (simp add: keeps_def assign_at_def reports_kept_def)

lemma rk_assign_dones: "keeps reports_kept (assign_at dones dones_update i v)"
  by (simp add: keeps_def assign_at_def reports_kept_def)

lemma rk_assign_successes:
  "keeps reports_kept (assign_at episode_successes episode_successes_update i v)"
  by (simp add: keeps_def assign_at_def reports_kept_def)

lemma rk_assign_timeouts:
  "keeps reports_kept (assign_at episode_timeouts episode_timeouts_update i v)"
  by (simp add: keeps_def assign_at_def reports_kept_def)

lemma rk_assign_counts: "keeps reports_kept (assign_at episode_counts episode_counts_update i v)"
  by (simp add: keeps_def assign_at_def reports_kept_def)

lemma rk_assign_configs:
  "keeps reports_kept (assign_at curriculum_configs curriculum_configs_update i v)"
  by (simp add: keeps_def assign_at_def reports_kept_def)

lemma rk_get_config: "keeps reports_kept get_environment_config"
  by (simp add: keeps_def get_environment_config_def reports_kept_def split: option.splits)

lemmas rk_basics =
  reports_kept_preorder keeps_ret [OF reports_kept_preorder] keeps_raise [OF reports_kept_preorder]
  keeps_pure [OF reports_kept_preorder] keeps_read_at [OF reports_kept_preorder]
  rk_with_remote rk_assign_obs rk_assign_rewards rk_assign_dones rk_assign_successes
  rk_assign_timeouts rk_assign_counts rk_assign_configs rk_get_config

lemma rk_remote_send: "keeps reports_kept (remote_send i c)"
  by (simp add: remote_send_def rk_with_remote)

lemma rk_remote_recv: "keeps reports_kept (remote_recv i)"
  by (simp add: remote_recv_def rk_with_remote)

lemma rk_track_rewards: "keeps reports_kept (track_rewards i rd)"
  unfolding track_rewards_def
  by (intro keeps_state_if keeps_bnd rk_basics)

lemma rk_reset_with_retry: "keeps reports_kept (reset_with_retry as i required)"
proof (induction as)
  case Nil
  then show ?case by (simp add: rk_basics)
next
  case (Cons a as)
  have "keeps reports_kept
          (case m of MsgObs obs \<Rightarrow>
              if IntVal (int (length obs)) = required
              then assign_at obs_dicts obs_dicts_update i obs
              else reset_with_retry as i required
           | _ \<Rightarrow> raise TypeError)" for m
    using Cons by (cases m) (simp_all add: rk_basics)
  then show ?case
    by (simp add: keeps_bnd [OF reports_kept_preorder] rk_remote_send rk_remote_recv)
qed

lemma rk_reset_action_stackers: "keeps reports_kept (reset_action_stackers i obs)"
  unfolding reset_action_stackers_def
  by (intro keeps_state_if keeps_for_each keeps_bnd rk_basics rk_remote_send rk_remote_recv)

text \<open>Lines 499-512: what \<^verbatim>\<open>update_progression_stats\<close> receives for a finished episode.\<close>

lemma report_episode_reports:
  assumes "curriculum_manager s = Some g" and "i < length (episode_rewards s)"
    and "i < length (episode_successes s)" and "i < length (episode_timeouts s)"
  shows "map_option reports (curriculum_manager (snd (report_episode i s))) =
     Some (reports g @ [episode_metrics (episode_successes s ! i) (episode_timeouts s ! i)
                          (episode_rewards s ! i)])"
proof -
  let ?m = "episode_metrics (episode_successes s ! i) (episode_timeouts s ! i) (episode_rewards s ! i)"
  let ?s1 = "s\<lparr>curriculum_manager := Some (g\<lparr>reports := reports g @ [?m]\<rparr>)\<rparr>"
  let ?tail = "bnd get_environment_config
        (\<lambda>new_config. bnd (\<lambda>s. (make_config_picklable new_config, s))
        (\<lambda>new_config. bnd (assign_at curriculum_configs curriculum_configs_update i (Some new_config))
        (\<lambda>_. bnd (remote_send i (CmdSetCurriculum new_config))
        (\<lambda>_. bnd (remote_recv i)
        (\<lambda>_. ret ())))))"
  have tail: "keeps reports_kept ?tail"
    by (intro keeps_bnd rk_basics rk_remote_send rk_remote_recv)
  have "report_episode i s = ?tail ?s1"
    using assms
    by (simp add: report_episode_def read_at_def list_get_def bnd_def
        update_progression_stats_def modify_def)
  with keepsD [OF tail, of ?s1] show ?thesis by (simp add: reports_kept_def)
qed

lemma rk_report_episode_no_manager:
  "curriculum_manager s = None \<Longrightarrow> report_episode i s = (Return (), s)"
  by (simp add: report_episode_def)

text \<open>Lines 495-546 for a finished episode: the one report that is made.\<close>

lemma finish_episode_reports:
  assumes "curriculum_manager s = Some g" and "i < length (episode_rewards s)"
    and "i < length (episode_successes s)" and "i < length (episode_timeouts s)"
  shows "map_option reports (curriculum_manager
           (snd (finish_episode i required obs terminated_dict truncated_dict s))) =
     Some (reports g @ [episode_metrics (py_any (py_values terminated_dict))
                          (py_any (py_values truncated_dict) \<and> \<not> py_any (py_values terminated_dict))
                          (episode_rewards s ! i)])"
proof -
  let ?succ = "py_any (py_values terminated_dict)"
  let ?tout = "py_any (py_values truncated_dict) \<and> \<not> ?succ"
  let ?s2 = "s\<lparr>episode_successes := (episode_successes s)[i := ?succ],
               episode_timeouts := (episode_timeouts s)[i := ?tout]\<rparr>"
  let ?tail = "\<lambda>_::unit. bnd (read_at episode_counts i)
       (\<lambda>n. bnd (assign_at episode_counts episode_counts_update i (n + 1))
       (\<lambda>_. bnd (reset_with_retry [0, 1, 2] i required)
       (\<lambda>_. bnd (reset_action_stackers i obs)
       (\<lambda>_. bnd (assign_at episode_rewards episode_rewards_update i [])
       (\<lambda>_. bnd (assign_at episode_successes episode_successes_update i False)
       (\<lambda>_. assign_at episode_timeouts episode_timeouts_update i False))))))"
  have tail: "keeps reports_kept (?tail x)" for x
    by (intro keeps_bnd rk_basics rk_reset_with_retry rk_reset_action_stackers)
  have fe: "finish_episode i required obs terminated_dict truncated_dict s =
      bnd (report_episode i) ?tail ?s2"
    using assms(3,4)
    by (cases s) (simp add: finish_episode_def assign_at_def read_at_def list_get_def bnd_def)
  have rep: "map_option reports (curriculum_manager (snd (report_episode i ?s2))) =
      Some (reports g @ [episode_metrics ?succ ?tout (episode_rewards s ! i)])"
    using report_episode_reports [of ?s2 g i] assms by simp
  obtain r s3 where r: "report_episode i ?s2 = (r, s3)" by (cases "report_episode i ?s2")
  have "reports_kept s3 (snd (bnd (report_episode i) ?tail ?s2))"
  proof (cases r)
    case (Return x)
    with r keepsD [OF tail, of s3] show ?thesis by (simp add: bnd_def)
  qed (use r in \<open>simp_all add: bnd_def reports_kept_def\<close>)
  with rep r fe show ?thesis by (simp add: reports_kept_def)
qed


lemma finish_episode_clears:
  assumes "finish_episode i required obs terminated_dict truncated_dict s = (Return (), s')"
  shows "episode_rewards s' ! i = [] \<and> i < length (episode_rewards s')"
proof -
  from assms obtain sa sb sc where
    a: "assign_at episode_rewards episode_rewards_update i [] sa = (Return (), sb)" and
    b: "assign_at episode_successes episode_successes_update i False sb = (Return (), sc)" and
    c: "assign_at episode_timeouts episode_timeouts_update i False sc = (Return (), s')"
    unfolding finish_episode_def
    by (elim bnd_Return) auto
  from a have "episode_rewards sb ! i = [] \<and> i < length (episode_rewards sb)"
    by (auto simp: assign_at_def split: if_splits)
  moreover from b c have "episode_rewards s' = episode_rewards sb"
    by (auto simp: assign_at_def split: if_splits)
  ultimately show ?thesis by simp
qed

lemma remote_recv_state: "remote_recv i st = (r, st1) \<Longrightarrow> st1 = st\<lparr>remotes := remotes st1\<rparr>"
  by (auto simp: remote_recv_def with_remote_def split: option.splits if_splits prod.splits)

text \<open>
  The body of the collecting loop for slot \<open>i\<close>, once the worker's step result
  \<open>(obs, rw, t, u)\<close> has arrived, with a Curriculum Manager: the accumulator takes the
  rewards of the step; when the episode is over exactly one report is made, from the
  flags of this step and the accumulator, and a body that returns has emptied the
  accumulator; otherwise nothing is reported.
\<close>

lemma collect_slot_reports:
  assumes mgr: "curriculum_manager st = Some g"
    and recv: "remote_recv i st = (Return (MsgStep (obs, rw, t, u)), st1)"
    and len: "i < length (episode_rewards st)" "i < length (dones st)"
      "i < length (curriculum_configs st)" "i < length (episode_successes st)"
      "i < length (episode_timeouts st)"
  shows "map_option reports (curriculum_manager (snd (collect_slot i st))) =
      Some (reports g @
        (if py_any (py_values t) \<or> py_any (py_values u)
         then [episode_metrics (py_any (py_values t))
                 (py_any (py_values u) \<and> \<not> py_any (py_values t))
                 (accumulate (episode_rewards st ! i) rw)]
         else []))"
    and "\<not> (py_any (py_values t) \<or> py_any (py_values u)) \<Longrightarrow>
      episode_rewards (snd (collect_slot i st)) ! i = accumulate (episode_rewards st ! i) rw"
    and "py_any (py_values t) \<or> py_any (py_values u) \<Longrightarrow> fst (collect_slot i st) = Return r \<Longrightarrow>
      episode_rewards (snd (collect_slot i st)) ! i = []"
    and "fst (collect_slot i st) = Return r \<Longrightarrow> r = (obs, rw, t, u)"
proof -
  let ?done = "py_any (py_values t) \<or> py_any (py_values u)"
  let ?acc = "accumulate (episode_rewards st ! i) rw"
  have st1: "st1 = st\<lparr>remotes := remotes st1\<rparr>" by (rule remote_recv_state [OF recv])
  let ?s3 = "st1\<lparr>episode_rewards := (episode_rewards st)[i := ?acc],
                 dones := (dones st)[i := ?done]\<rparr>"
  have f3: "curriculum_manager ?s3 = Some g" "episode_rewards ?s3 ! i = ?acc"
    "i < length (episode_rewards ?s3)" "i < length (episode_successes ?s3)"
    "i < length (episode_timeouts ?s3)"
    using mgr len by (subst st1, simp)+
  have pre: "bnd (track_rewards i rw)
           (\<lambda>_. bnd (assign_at dones dones_update i ?done)
           (\<lambda>_. bnd (read_at curriculum_configs i)
           (\<lambda>config. bnd (read_at dones i) (k config)))) st1
         = k (curriculum_configs st ! i) ?done ?s3" for k :: "config option \<Rightarrow> bool \<Rightarrow> (vec_env, 'x) prog"
    using mgr len
    by (subst (1 2) st1, cases st)
       (simp add: track_rewards_def bnd_def read_at_def list_get_def assign_at_def)
  have cs: "collect_slot i st =
      bnd (if ?done
           then finish_episode i (required_agents (curriculum_configs st ! i) obs) obs t u
           else assign_at obs_dicts obs_dicts_update i obs)
        (\<lambda>_. ret (obs, rw, t, u)) ?s3"
    unfolding collect_slot_def
    by (subst bnd_def, simp add: recv pre)
  have going: "snd (collect_slot i st) = snd (assign_at obs_dicts obs_dicts_update i obs ?s3)"
    if "\<not> ?done"
    using that by (simp add: cs bnd_def ret_def split: prod.splits outcome.splits)
  have over: "snd (collect_slot i st) =
        snd (finish_episode i (required_agents (curriculum_configs st ! i) obs) obs t u ?s3)"
    if "?done"
    using that by (simp add: cs bnd_def ret_def split: prod.splits outcome.splits)
  show "map_option reports (curriculum_manager (snd (collect_slot i st))) =
      Some (reports g @
        (if ?done
         then [episode_metrics (py_any (py_values t))
                 (py_any (py_values u) \<and> \<not> py_any (py_values t)) ?acc]
         else []))"
  proof (cases ?done)
    case True
    with finish_episode_reports [OF f3(1,3,4,5), of "required_agents (curriculum_configs st ! i) obs" obs t u]
      f3(2) over [OF True]
    show ?thesis by simp
  next
    case False
    with going [OF False] f3(1) show ?thesis by (simp add: assign_at_def)
  qed
  show "episode_rewards (snd (collect_slot i st)) ! i = ?acc" if "\<not> ?done"
    using going [OF that] f3(2) by (simp add: assign_at_def)
  show "episode_rewards (snd (collect_slot i st)) ! i = []"
    if d: "?done" and r: "fst (collect_slot i st) = Return r"
  proof -
    obtain s' where s': "collect_slot i st = (Return r, s')"
      using r by (cases "collect_slot i st") simp
    with d cs have
      "finish_episode i (required_agents (curriculum_configs st ! i) obs) obs t u ?s3 = (Return (), s')"
      by (auto simp: bnd_def ret_def split: prod.splits outcome.splits)
    from finish_episode_clears [OF this] s' show ?thesis by simp
  qed
  show "r = (obs, rw, t, u)" if "fst (collect_slot i st) = Return r"
    using that by (auto simp: cs bnd_def ret_def split: prod.splits outcome.splits)
qed

section \<open>Configurations with a required-agent count\<close>

lemma find_filter:
  "List.find P xs = (case filter P xs of [] \<Rightarrow> None | x # _ \<Rightarrow> Some x)"
  by (induction xs) auto

lemma make_config_picklable_present:
  "map_of config ''required_agents'' \<noteq> None \<Longrightarrow> make_config_picklable config = Return config"
  by (auto simp: make_config_picklable_def)

lemma make_config_picklable_absent:
  assumes "map_of config ''required_agents'' = None"
    and "map_of config ''state_mutator'' = Some (MutatorVal (MutatorSequence ms))"
  shows "make_config_picklable config =
     Return (AList.update ''required_agents''
       (IntVal (case List.find is_FixedTeamSizeMutator ms of
                  Some m \<Rightarrow> blue_size m + orange_size m | None \<Rightarrow> 1)) config)"
  using assms
  by (cases "filter is_FixedTeamSizeMutator ms")
     (simp_all add: make_config_picklable_def find_filter Let_def)

lemma make_config_picklable_Return:
  assumes "make_config_picklable config = Return processed"
  shows "(\<forall>k v. map_of config k = Some v \<longrightarrow> map_of processed k = Some v) \<and>
         (\<forall>k. k \<noteq> ''required_agents'' \<longrightarrow> map_of processed k = map_of config k) \<and>
         map_of processed ''required_agents'' \<noteq> None"
proof (cases "map_of config ''required_agents''")
  case (Some v)
  with assms have "processed = config" by (simp add: make_config_picklable_def)
  with Some show ?thesis by simp
next
  case None
  with assms obtain v where "processed = AList.update ''required_agents'' v config"
    by (auto simp: make_config_picklable_def Let_def
        split: option.splits outcome.splits if_splits)
  with None show ?thesis by (auto simp: update_conv')
qed

lemma init_configs_have_required:
  assumes "init_configs idxs False dbg mgr configs0 = (Return configs, mgr')"
    and "configs_have_required configs0"
  shows "configs_have_required configs"
  using assms
proof (induction idxs arbitrary: mgr configs0)
  case Nil
  then show ?case by simp
next
  case (Cons env_idx idxs)
  show ?case
  proof (cases mgr)
    case None
    with Cons.prems have "init_configs idxs False dbg mgr (configs0 @ [None]) = (Return configs, mgr')"
      by simp
    moreover have "configs_have_required (configs0 @ [None])"
      using Cons.prems(2) by (simp add: configs_have_required_def)
    ultimately show ?thesis by (rule Cons.IH)
  next
    case (Some g)
    let ?config = "policy g (reports g) (config_calls g)"
    from Some Cons.prems(1) obtain c where
      c: "make_config_picklable ?config = Return c" and
      r: "init_configs idxs False dbg (Some (g\<lparr>config_calls := config_calls g + 1\<rparr>))
            (configs0 @ [Some c]) = (Return configs, mgr')"
      by (auto simp: Let_def split: if_splits outcome.splits)
    have "configs_have_required (configs0 @ [Some c])"
      using Cons.prems(2) make_config_picklable_Return [OF c]
      by (auto simp: configs_have_required_def)
    with r show ?thesis by (rule Cons.IH)
  qed
qed


lemma configs_rel_preorder: "preorder_on_states configs_rel"
  by (simp add: preorder_on_states_def configs_rel_def)

lemma keeps_bnd_pure:
  assumes R: "preorder_on_states R" and f: "\<And>x. v = Return x \<Longrightarrow> keeps R (f x)"
  shows "keeps R (bnd (\<lambda>s. (v, s)) f)"
proof (rule keepsI)
  fix s
  show "R s (snd (bnd (\<lambda>s. (v, s)) f s))"
  proof (cases v)
    case (Return x)
    with keepsD [OF f [OF Return], of s] show ?thesis by (simp add: bnd_def)
  next
    case (Raise e)
    with R show ?thesis by (simp add: bnd_def preorder_on_states_def)
  next
    case Blocked
    with R show ?thesis by (simp add: bnd_def preorder_on_states_def)
  qed
qed

lemma cfg_with_remote: "keeps configs_rel (with_remote i f)"
  by (simp add: keeps_def with_remote_def configs_rel_def split: option.splits prod.splits)

lemma cfg_assign_obs: "keeps configs_rel (assign_at obs_dicts obs_dicts_update i v)"
  by (simp add: keeps_def assign_at_def configs_rel_def)

lemma cfg_assign_rewards: "keeps configs_rel (assign_at episode_rewards episode_rewards_update i v)"
  by (simp add: keeps_def assign_at_def configs_rel_def)

lemma cfg_assign_dones: "keeps configs_rel (assign_at dones dones_update i v)"
  by (simp add: keeps_def assign_at_def configs_rel_def)

lemma cfg_assign_successes:
  "keeps configs_rel (assign_at episode_successes episode_successes_update i v)"
  by (simp add: keeps_def assign_at_def configs_rel_def)

lemma cfg_assign_timeouts:
  "keeps configs_rel (assign_at episode_timeouts episode_timeouts_update i v)"
  by (simp add: keeps_def assign_at_def configs_rel_def)

lemma cfg_assign_counts: "keeps configs_rel (assign_at episode_counts episode_counts_update i v)"
  by (simp add: keeps_def assign_at_def configs_rel_def)

lemma cfg_update_stats: "keeps configs_rel (update_progression_stats m)"
  by (simp add: keeps_def update_progression_stats_def modify_def configs_rel_def)

lemma cfg_get_config: "keeps configs_rel get_environment_config"
  by (simp add: keeps_def get_environment_config_def configs_rel_def split: option.splits)

lemma cfg_assign_config:
  assumes "map_of c ''required_agents'' \<noteq> None"
  shows "keeps configs_rel (assign_at curriculum_configs curriculum_configs_update i (Some c))"
proof (rule keepsI)
  fix s :: vec_env
  have "set ((curriculum_configs s)[i := Some c]) \<subseteq> insert (Some c) (set (curriculum_configs s))"
    by (rule set_update_subset_insert)
  with assms show "configs_rel s (snd (assign_at curriculum_configs curriculum_configs_update i (Some c) s))"
    by (auto simp: assign_at_def configs_rel_def configs_have_required_def)
qed

lemmas cfg_basics =
  configs_rel_preorder keeps_ret [OF configs_rel_preorder] keeps_raise [OF configs_rel_preorder]
  keeps_pure [OF configs_rel_preorder] keeps_read_at [OF configs_rel_preorder]
  cfg_with_remote cfg_assign_obs cfg_assign_rewards cfg_assign_dones cfg_assign_successes
  cfg_assign_timeouts cfg_assign_counts cfg_update_stats cfg_get_config

lemma cfg_remote_send: "keeps configs_rel (remote_send i c)"
  by (simp add: remote_send_def cfg_with_remote)

lemma cfg_remote_recv: "keeps configs_rel (remote_recv i)"
  by (simp add: remote_recv_def cfg_with_remote)

lemma cfg_track_rewards: "keeps configs_rel (track_rewards i rd)"
  unfolding track_rewards_def
  by (intro keeps_state_if keeps_bnd cfg_basics)

lemma cfg_report_episode: "keeps configs_rel (report_episode i)"
proof -
  have store: "keeps configs_rel
          (bnd (\<lambda>s. (make_config_picklable new_config, s))
             (\<lambda>new_config. bnd (assign_at curriculum_configs curriculum_configs_update i (Some new_config))
             (\<lambda>_. bnd (remote_send i (CmdSetCurriculum new_config))
             (\<lambda>_. bnd (remote_recv i)
             (\<lambda>_. ret ())))))" for new_config
  proof (rule keeps_bnd_pure [OF configs_rel_preorder])
    fix x
    assume "make_config_picklable new_config = Return x"
    from make_config_picklable_Return [OF this]
    have "map_of x ''required_agents'' \<noteq> None" by simp
    then show "keeps configs_rel
        (bnd (assign_at curriculum_configs curriculum_configs_update i (Some x))
           (\<lambda>_. bnd (remote_send i (CmdSetCurriculum x)) (\<lambda>_. bnd (remote_recv i) (\<lambda>_. ret ()))))"
      by (intro keeps_bnd cfg_basics cfg_assign_config cfg_remote_send cfg_remote_recv)
  qed
  show ?thesis
    unfolding report_episode_def
    by (intro keeps_state_if store keeps_bnd cfg_basics)
qed

lemma cfg_reset_with_retry: "keeps configs_rel (reset_with_retry as i required)"
proof (induction as)
  case Nil
  then show ?case by (simp add: cfg_basics)
next
  case (Cons a as)
  have "keeps configs_rel
          (case m of MsgObs obs \<Rightarrow>
              if IntVal (int (length obs)) = required
              then assign_at obs_dicts obs_dicts_update i obs
              else reset_with_retry as i required
           | _ \<Rightarrow> raise TypeError)" for m
    using Cons by (cases m) (simp_all add: cfg_basics)
  then show ?case
    by (simp add: keeps_bnd [OF configs_rel_preorder] cfg_remote_send cfg_remote_recv)
qed

lemma cfg_reset_action_stackers: "keeps configs_rel (reset_action_stackers i obs)"
  unfolding reset_action_stackers_def
  by (intro keeps_state_if keeps_for_each keeps_bnd cfg_basics cfg_remote_send cfg_remote_recv)

lemma cfg_finish_episode: "keeps configs_rel (finish_episode i required obs term trunc)"
  unfolding finish_episode_def
  by (intro keeps_bnd cfg_basics cfg_report_episode cfg_reset_with_retry
      cfg_reset_action_stackers)

lemma cfg_collect_slot: "keeps configs_rel (collect_slot i)"
proof -
  have "keeps configs_rel
          (case m of
             MsgStep (next_obs_dict, reward_dict, terminated_dict, truncated_dict) \<Rightarrow>
               bnd (track_rewards i reward_dict)
                 (\<lambda>_. bnd (assign_at dones dones_update i
                        (py_any (py_values terminated_dict) \<or> py_any (py_values truncated_dict)))
                 (\<lambda>_. bnd (read_at curriculum_configs i)
                 (\<lambda>config. bnd (read_at dones i)
                 (\<lambda>d. bnd (if d
                           then finish_episode i (required_agents config next_obs_dict)
                                  next_obs_dict terminated_dict truncated_dict
                           else assign_at obs_dicts obs_dicts_update i next_obs_dict)
                 (\<lambda>_. ret (next_obs_dict, reward_dict, terminated_dict, truncated_dict))))))
           | _ \<Rightarrow> raise TypeError)" for m
  proof (cases m)
    case (MsgStep res)
    obtain a b c d where res: "res = (a, b, c, d)" by (cases res)
    show ?thesis unfolding MsgStep res
      by (simp, intro keeps_bnd keeps_if cfg_basics cfg_track_rewards cfg_finish_episode)
  qed (simp_all add: cfg_basics)
  then show ?thesis
    unfolding collect_slot_def
    by (intro keeps_bnd cfg_basics cfg_remote_recv)
qed

lemma cfg_collect: "keeps configs_rel (collect idxs results)"
  by (induction idxs arbitrary: results)
     (simp_all add: cfg_basics keeps_bnd [OF configs_rel_preorder] cfg_collect_slot)

lemma cfg_step_multiprocess: "keeps configs_rel (step_multiprocess actions_dict_list)"
proof -
  have 1: "keeps configs_rel the_remotes"
    by (simp add: keeps_def the_remotes_def configs_rel_def split: option.splits)
  have 2: "keeps configs_rel (\<lambda>st. (Return (results, dones st, episode_counts st), st))" for results
    by (simp add: keeps_def configs_rel_def)
  show ?thesis
    unfolding step_multiprocess_def
    by (intro keeps_bnd keeps_for_each cfg_basics cfg_remote_send cfg_collect 1 2)
qed

text \<open>
  Claim C10. Whenever \<^verbatim>\<open>_make_config_picklable\<close> returns, the result holds every
  key-value pair of the input, differs from it at most at \<^verbatim>\<open>required_agents\<close>, and has
  that key. An input that has the key is returned as it is. For an input without the key
  whose state mutator has the list \<^verbatim>\<open>mutators\<close>, the function returns the input with
  \<^verbatim>\<open>required_agents\<close> set to \<^verbatim>\<open>blue_size + orange_size\<close> of the first
  \<^verbatim>\<open>FixedTeamSizeMutator\<close> of the list, or to 1 when the list has none. Consequently the
  configurations that a process-mode constructor stores all have the key, and a
  process-mode \<^verbatim>\<open>step\<close> keeps it so, whatever its outcome.
\<close>

theorem make_config_picklable_required_agents:
  "(make_config_picklable config = Return processed \<longrightarrow>
      (\<forall>k v. map_of config k = Some v \<longrightarrow> map_of processed k = Some v) \<and>
      (\<forall>k. k \<noteq> ''required_agents'' \<longrightarrow> map_of processed k = map_of config k) \<and>
      map_of processed ''required_agents'' \<noteq> None) \<and>
   (map_of config ''required_agents'' \<noteq> None \<longrightarrow> make_config_picklable config = Return config) \<and>
   (map_of config ''required_agents'' = None \<and>
    map_of config ''state_mutator'' = Some (MutatorVal (MutatorSequence ms)) \<longrightarrow>
      make_config_picklable config =
        Return (AList.update ''required_agents''
          (IntVal (case List.find is_FixedTeamSizeMutator ms of
                     Some m \<Rightarrow> blue_size m + orange_size m | None \<Rightarrow> 1)) config)) \<and>
   (init_configs idxs False dbg mgr [] = (Return configs, mgr') \<longrightarrow>
      (\<forall>c. Some c \<in> set configs \<longrightarrow> map_of c ''required_agents'' \<noteq> None)) \<and>
   (mode st = MultiprocessMode \<and>
    (\<forall>c. Some c \<in> set (curriculum_configs st) \<longrightarrow> map_of c ''required_agents'' \<noteq> None) \<longrightarrow>
      (\<forall>c. Some c \<in> set (curriculum_configs (snd (step actions_dict_list st))) \<longrightarrow>
           map_of c ''required_agents'' \<noteq> None))"
proof (intro conjI impI)
  assume "make_config_picklable config = Return processed"
  from make_config_picklable_Return [OF this]
  show "\<forall>k v. map_of config k = Some v \<longrightarrow> map_of processed k = Some v"
    "\<forall>k. k \<noteq> ''required_agents'' \<longrightarrow> map_of processed k = map_of config k"
    "map_of processed ''required_agents'' \<noteq> None"
    by blast+
next
  assume "map_of config ''required_agents'' \<noteq> None"
  then show "make_config_picklable config = Return config"
    by (rule make_config_picklable_present)
next
  assume "map_of config ''required_agents'' = None \<and>
    map_of config ''state_mutator'' = Some (MutatorVal (MutatorSequence ms))"
  then show "make_config_picklable config =
        Return (AList.update ''required_agents''
          (IntVal (case List.find is_FixedTeamSizeMutator ms of
                     Some m \<Rightarrow> blue_size m + orange_size m | None \<Rightarrow> 1)) config)"
    by (simp add: make_config_picklable_absent)
next
  assume "init_configs idxs False dbg mgr [] = (Return configs, mgr')"
  from init_configs_have_required [OF this]
  show "\<forall>c. Some c \<in> set configs \<longrightarrow> map_of c ''required_agents'' \<noteq> None"
    by (simp add: configs_have_required_def)
next
  assume a: "mode st = MultiprocessMode \<and>
    (\<forall>c. Some c \<in> set (curriculum_configs st) \<longrightarrow> map_of c ''required_agents'' \<noteq> None)"
  have "configs_rel st (snd (step_multiprocess actions_dict_list st))"
    by (rule keepsD [OF cfg_step_multiprocess])
  with a show "\<forall>c. Some c \<in> set (curriculum_configs (snd (step actions_dict_list st))) \<longrightarrow>
           map_of c ''required_agents'' \<noteq> None"
    by (simp add: configs_rel_def configs_have_required_def step_def)
qed


text \<open>
  The theorem at a one-against-one configuration without the key, at a configuration
  with the key, at a constructor loop for one slot and at a step that replaces the slot's
  configuration.
\<close>

theorem make_config_picklable_required_agents_witness:
  "make_config_picklable duel_config = Return (duel_config @ [(''required_agents'', IntVal 2)]) \<and>
   make_config_picklable solo_config = Return solo_config \<and>
   map_of (duel_config @ [(''required_agents'', IntVal 2)]) ''state_mutator'' =
     map_of duel_config ''state_mutator'' \<and>
   map_of (duel_config @ [(''required_agents'', IntVal 2)]) ''required_agents'' \<noteq> None \<and>
   map_of (the (hd (curriculum_configs
     (snd (step [[(0, PyNum 1)]] (curriculum_coordinator two_agent_env)))))) ''required_agents''
     \<noteq> None \<and>
   fst (init_configs [0] False False (Some duel_manager) []) =
     Return [Some (duel_config @ [(''required_agents'', IntVal 2)])]"
proof -
  let ?d2 = "duel_config @ [(''required_agents'', IntVal 2)]"
  let ?st = "curriculum_coordinator two_agent_env"
  let ?acts = "[[(0, PyNum 1)]] :: actions list"
  note t = make_config_picklable_required_agents
  have absent: "map_of duel_config ''required_agents'' = None \<and>
     map_of duel_config ''state_mutator'' = Some (MutatorVal (MutatorSequence [FixedTeamSizeMutator 1 1]))"
    by (simp add: duel_config_def)
  have upd: "AList.update ''required_agents''
          (IntVal (case List.find is_FixedTeamSizeMutator [FixedTeamSizeMutator 1 1] of
                     Some m \<Rightarrow> blue_size m + orange_size m | None \<Rightarrow> 1)) duel_config = ?d2"
    by (simp add: duel_config_def)
  from t [where config = duel_config and ms = "[FixedTeamSizeMutator 1 1]"] absent upd
  have 1: "make_config_picklable duel_config = Return ?d2" by simp
  have present: "map_of solo_config ''required_agents'' \<noteq> None"
    by (simp add: solo_config_def)
  from t [where config = solo_config] present
  have 2: "make_config_picklable solo_config = Return solo_config" by blast
  from t [where config = duel_config and processed = ?d2] 1
  have 3: "map_of ?d2 ''state_mutator'' = map_of duel_config ''state_mutator''"
    "map_of ?d2 ''required_agents'' \<noteq> None"
    by simp_all
  have m: "mode ?st = MultiprocessMode"
    by (simp add: curriculum_coordinator_def process_coordinator_def)
  have before: "\<forall>c. Some c \<in> set (curriculum_configs ?st) \<longrightarrow> map_of c ''required_agents'' \<noteq> None"
    by (simp add: curriculum_coordinator_def process_coordinator_def solo_config_def)
  have shape: "curriculum_configs (snd (step ?acts ?st)) = [Some ?d2]"
    by code_simp
  from t [where st = ?st and actions_dict_list = ?acts] m before
  have "\<forall>c. Some c \<in> set (curriculum_configs (snd (step ?acts ?st))) \<longrightarrow>
           map_of c ''required_agents'' \<noteq> None"
    by blast
  then have 4: "map_of (the (hd (curriculum_configs (snd (step ?acts ?st))))) ''required_agents'' \<noteq> None"
    by (simp add: shape)
  have 5: "init_configs [0] False False (Some duel_manager) [] =
      (Return [Some ?d2], Some (duel_manager\<lparr>config_calls := 2\<rparr>))"
    by (simp add: duel_manager_def 1)
  from t [where idxs = "[0]" and dbg = False and mgr = "Some duel_manager"
      and configs = "[Some ?d2]" and mgr' = "Some (duel_manager\<lparr>config_calls := 2\<rparr>)"] 5
  have 6: "\<forall>c. Some c \<in> set [Some ?d2] \<longrightarrow> map_of c ''required_agents'' \<noteq> None"
    by blast
  from 1 2 3 4 5 6 show ?thesis by simp
qed

end
